theory Spec2Isabelle
  imports Main "HOL-Library.Word"
begin

section \<open>The Solana JSON-RPC client of pkg/rpc/client.go\<close>

text \<open>
  The client talks to three things outside the file: the process clock, the HTTP
  transport and the caller's context. They are modelled as an explicit \<open>world\<close> that
  every operation takes and returns: a clock, a script of what each HTTP exchange will
  yield, a script of which branch each backoff \<open>select\<close> will take, and the record of
  what the client did (requests posted, timers started, lines logged).
  Library functions whose code is not in the repository's source
  (\<open>json.Unmarshal\<close> at each result type, \<open>http.NewRequestWithContext\<close>,
  \<open>slog.Get\<close>) are fields of a record \<open>lib\<close>, left arbitrary in every theorem.
  The read/write mutex is not modelled: the embedding is of one call at a time.
\<close>

subsection \<open>Time\<close>

text \<open>
  \<open>time.Duration\<close> is an \<open>int64\<close> count of nanoseconds, read with \<open>sint\<close>.
  An instant of the process clock is a number of nanoseconds on an unbounded axis.
\<close>

type_synonym int64 = "64 word"
type_synonym Duration = "64 word"
type_synonym Time = int

definition Second :: Duration where
  "Second = 1000000000"

definition maxDuration :: Duration where
  "maxDuration = 9223372036854775807"

definition minDuration :: Duration where
  "minDuration = - 9223372036854775808"

text \<open>\<open>t.Sub(u)\<close>: the difference as a Duration, saturating at the ends of int64.\<close>

definition Sub :: "Time \<Rightarrow> Time \<Rightarrow> Duration" where
  "Sub t u =
     (let d = t - u in
      if d > sint maxDuration then maxDuration
      else if d < sint minDuration then minDuration
      else word_of_int d)"

text \<open>\<open>d.Milliseconds()\<close>: int64 division by 1e6, truncating towards zero.\<close>

definition Milliseconds :: "Duration \<Rightarrow> int64" where
  "Milliseconds d =
     (if sint d < 0 then word_of_int (- ((- sint d) div 1000000))
      else word_of_int (sint d div 1000000))"

subsection \<open>Data model\<close>

text \<open>
  Modelled from the spec: the declarations of \<open>RPCError\<close> and \<open>Response[T]\<close> are in a
  file of the package that is not part of the source at hand. The spec gives
  \<open>RpcError = {code: integer, message: string, method: string}\<close> and
  \<open>Response<T> = {result: T, error: RpcError}\<close>.
\<close>

record RPCError =
  Code :: int
  Message :: string
  RPCError_Method :: string

record 'a Response =
  Result :: 'a
  Error :: RPCError

definition zero_RPCError :: RPCError where
  "zero_RPCError = \<lparr>Code = 0, Message = [], RPCError_Method = []\<rparr>"

text \<open>\<open>var resp Response[T]\<close>: the zero value, given the zero value of \<open>T\<close>.\<close>

definition zero_Response :: "'a \<Rightarrow> 'a Response" where
  "zero_Response z = \<lparr>Result = z, Error = zero_RPCError\<rparr>"

text \<open>The anonymous result struct of getVersion, with its one field \<open>solana-core\<close>.\<close>

record solana_core =
  Version :: string

text \<open>
  The values the client puts in a \<open>[]any\<close>: an int64 slot, a \<open>map[string]string\<close>
  (as its key/value pairs), and, for the generic codec, any Go value that
  \<open>encoding/json\<close> refuses (a channel, a function).
\<close>

datatype any = Int64 int64 | StringMap "(string \<times> string) list" | Unencodable

record Request =
  Jsonrpc :: string
  Id :: int
  Method :: string
  Params :: "any list"

text \<open>
  A Go \<open>error\<close> value that is not nil. \<open>External\<close> is an error made by a library
  (net/http, io, encoding/json, context); \<open>PtrRPCError\<close> is \<open>&rpcResponse.Error\<close>;
  \<open>Errorf p e\<close> is \<open>fmt.Errorf(p + "%w", e)\<close>, where the wrapped \<open>e\<close> may be nil.
\<close>

datatype error =
    External string
  | PtrRPCError RPCError
  | Errorf string "error option"

record 'a cachedValue =
  cvalue :: 'a
  timestamp :: Time

record Dialer =
  Dialer_Timeout :: Duration
  KeepAlive :: Duration

record Transport =
  DialContext :: Dialer
  MaxIdleConns :: int
  MaxIdleConnsPerHost :: int
  IdleConnTimeout :: Duration

record http_Client =
  Transport :: Transport
  Timeout :: Duration

text \<open>\<open>logger\<close> is whether the pointer is non-nil.\<close>

record Client =
  HttpClient :: http_Client
  RpcUrl :: string
  HttpTimeout :: Duration
  logger :: bool
  versionCache :: "string cachedValue option"
  healthCache :: "string cachedValue option"
  cacheValidity :: Duration

text \<open>What the code reads of a \<open>context.Context\<close>: the error it reports once done.\<close>

record Context =
  Err :: error

subsection \<open>The world\<close>

text \<open>The bytes \<open>json.Marshal\<close> produces, identified with the request they encode.\<close>

datatype json_bytes = JSON Request

text \<open>
  One HTTP exchange, as the script gives it: \<open>HttpClient.Do\<close> fails after some
  nanoseconds; or it returns after some nanoseconds and \<open>io.ReadAll\<close> then fails, or
  yields the body, after some more.
\<close>

datatype exchange =
    DoError nat error
  | ReadError nat nat error
  | Body nat nat string

datatype log_entry =
    Debugf_request string json_bytes
  | Errorf_failed error
  | Debugw_completed string int64
  | Debugf_response string
  | Debug_version_cached
  | Debug_health_cached
  | Warnf_attempt int int error

text \<open>
  \<open>http w n\<close> is the outcome of the exchange made when \<open>n\<close> requests were posted
  before it; \<open>done_first w n\<close> says of the wait started when \<open>n\<close> timers were started
  before it whether \<open>ctx.Done()\<close> delivers before the timer (after how many
  nanoseconds), or the timer does (\<open>None\<close>). \<open>posts\<close> holds, for every request handed
  to \<open>HttpClient.Do\<close>, its URL and body; the verb \<open>POST\<close> and the header
  \<open>Content-Type: application/json\<close> are the same for all and are not recorded.
  \<open>timers\<close> holds the argument of every \<open>time.After\<close>, \<open>logs\<close> every line given to
  a logger that is not nil.
\<close>

record world =
  now :: Time
  http :: "nat \<Rightarrow> exchange"
  posts :: "(string \<times> json_bytes) list"
  done_first :: "nat \<Rightarrow> nat option"
  timers :: "Duration list"
  logs :: "log_entry list"

text \<open>
  The functions the client calls that are written elsewhere. \<open>'e\<close> is the type
  \<open>EpochInfo\<close>, declared in another file of the package, and \<open>zero_EpochInfo\<close> its
  zero value. \<open>NewRequestWithContext ctx url\<close> is the error of
  \<open>http.NewRequestWithContext(ctx, "POST", url, body)\<close>. Each \<open>Unmarshal\<close> is
  \<open>json.Unmarshal\<close> into a \<open>Response[T]\<close>: from the body and the target's content, the
  error and the content the target is left with. \<open>slog_Get\<close> is whether \<open>slog.Get()\<close>
  returns a logger.
\<close>

record 'e lib =
  NewRequestWithContext :: "Context \<Rightarrow> string \<Rightarrow> error option"
  slog_Get :: bool
  Unmarshal_int64 :: "string \<Rightarrow> int64 Response \<Rightarrow> error option \<times> int64 Response"
  Unmarshal_EpochInfo :: "string \<Rightarrow> 'e Response \<Rightarrow> error option \<times> 'e Response"
  Unmarshal_Version :: "string \<Rightarrow> solana_core Response \<Rightarrow> error option \<times> solana_core Response"
  Unmarshal_string :: "string \<Rightarrow> string Response \<Rightarrow> error option \<times> string Response"
  zero_EpochInfo :: 'e

definition time_Since :: "world \<Rightarrow> Time \<Rightarrow> Duration" where
  "time_Since w t = Sub (now w) t"

text \<open>A logging call: nothing happens when the logger is nil.\<close>

definition log :: "Client \<Rightarrow> log_entry \<Rightarrow> world \<Rightarrow> world" where
  "log c e w = (if logger c then w\<lparr>logs := logs w @ [e]\<rparr> else w)"

definition json_Marshal :: "Request \<Rightarrow> error + json_bytes" where
  "json_Marshal r =
     (if Unencodable \<in> set (Params r) then Inl (External ''json: unsupported type'')
      else Inr (JSON r))"

subsection \<open>NewRPCClient\<close>

definition NewRPCClient :: "'e lib \<Rightarrow> string \<Rightarrow> Duration \<Rightarrow> Client" where
  "NewRPCClient L rpcAddr httpTimeout =
     (let transport = \<lparr>DialContext = \<lparr>Dialer_Timeout = 5 * Second, KeepAlive = 30 * Second\<rparr>,
                       MaxIdleConns = 100,
                       MaxIdleConnsPerHost = 100,
                       IdleConnTimeout = 90 * Second\<rparr>
      in \<lparr>HttpClient = \<lparr>Transport = transport, Timeout = httpTimeout\<rparr>,
          RpcUrl = rpcAddr,
          HttpTimeout = httpTimeout,
          logger = slog_Get L,
          versionCache = None,
          healthCache = None,
          cacheValidity = 60 * Second\<rparr>)"

subsection \<open>getResponse\<close>

text \<open>
  The result is the returned error (\<open>None\<close> is nil) and the content of \<open>*rpcResponse\<close>
  after the call. \<open>unmarshal\<close> is \<open>json.Unmarshal\<close> at the type of \<open>rpcResponse\<close>:
  from the body and the target as it was, the error and the target as it is left.
\<close>

definition getResponse ::
  "'e lib \<Rightarrow> (string \<Rightarrow> 'a Response \<Rightarrow> error option \<times> 'a Response) \<Rightarrow>
   Context \<Rightarrow> Client \<Rightarrow> string \<Rightarrow> any list \<Rightarrow> 'a Response \<Rightarrow> world \<Rightarrow>
   (error option \<times> 'a Response) \<times> world" where
  "getResponse L unmarshal ctx client method params rpcResponse w =
     (let request = \<lparr>Jsonrpc = ''2.0'', Id = 1, Method = method, Params = params\<rparr> in
      (case json_Marshal request of
         Inl err \<Rightarrow>
           ((Some (Errorf ''failed to marshal request: '' (Some err)), rpcResponse), w)
       | Inr buffer \<Rightarrow>
           (let w1 = log client (Debugf_request (RpcUrl client) buffer) w in
            (case NewRequestWithContext L ctx (RpcUrl client) of
               Some err \<Rightarrow>
                 ((Some (Errorf ''failed to create request: '' (Some err)), rpcResponse), w1)
             | None \<Rightarrow>
                 (let start = now w1;
                      w2 = w1\<lparr>posts := posts w1 @ [(RpcUrl client, buffer)]\<rparr>
                  in (case http w1 (length (posts w1)) of
                        DoError d err \<Rightarrow>
                          ((Some (Errorf (method @ '' RPC call failed: '') (Some err)),
                            rpcResponse),
                           log client (Errorf_failed err) (w2\<lparr>now := now w2 + int d\<rparr>))
                      | ReadError d d' err \<Rightarrow>
                          (let w3 = w2\<lparr>now := now w2 + int d\<rparr>;
                               w4 = log client
                                      (Debugw_completed method
                                         (Milliseconds (time_Since w3 start))) w3
                           in ((Some (Errorf ''error reading response: '' (Some err)),
                                rpcResponse),
                               w4\<lparr>now := now w4 + int d'\<rparr>))
                      | Body d d' body \<Rightarrow>
                          (let w3 = w2\<lparr>now := now w2 + int d\<rparr>;
                               w4 = log client
                                      (Debugw_completed method
                                         (Milliseconds (time_Since w3 start))) w3;
                               w5 = log client (Debugf_response body)
                                      (w4\<lparr>now := now w4 + int d'\<rparr>)
                           in (case unmarshal body rpcResponse of
                                 (Some err, r) \<Rightarrow>
                                   ((Some (Errorf ''failed to decode response: '' (Some err)),
                                     r), w5)
                               | (None, r) \<Rightarrow>
                                   (if Code (Error r) \<noteq> 0 then
                                      (let r' = r\<lparr>Error :=
                                                   (Error r)\<lparr>RPCError_Method := method\<rparr>\<rparr>
                                       in ((Some (PtrRPCError (Error r')), r'), w5))
                                    else ((None, r), w5))))))))))"

subsection \<open>The typed methods\<close>

text \<open>
  A method returns its Go results (the error as an option), the client as the call
  leaves it, and the world.
\<close>

definition GetBlockTime ::
  "'e lib \<Rightarrow> Context \<Rightarrow> Client \<Rightarrow> int64 \<Rightarrow> world \<Rightarrow> (int64 \<times> error option) \<times> Client \<times> world" where
  "GetBlockTime L ctx c slot w =
     (case getResponse L (Unmarshal_int64 L) ctx c ''getBlockTime'' [Int64 slot]
             (zero_Response 0) w of
        ((Some err, resp), w') \<Rightarrow> ((0, Some err), c, w')
      | ((None, resp), w') \<Rightarrow> ((Result resp, None), c, w'))"

definition GetEpochInfo ::
  "'e lib \<Rightarrow> Context \<Rightarrow> Client \<Rightarrow> string \<Rightarrow> world \<Rightarrow> ('e option \<times> error option) \<times> Client \<times> world" where
  "GetEpochInfo L ctx c commitment w =
     (let config = StringMap [(''commitment'', commitment)] in
      case getResponse L (Unmarshal_EpochInfo L) ctx c ''getEpochInfo'' [config]
             (zero_Response (zero_EpochInfo L)) w of
        ((Some err, resp), w') \<Rightarrow> ((None, Some err), c, w')
      | ((None, resp), w') \<Rightarrow> ((Some (Result resp), None), c, w'))"

text \<open>Lines 208 to 223 of GetVersion: the call and the store into the slot.\<close>

definition GetVersion_refresh ::
  "'e lib \<Rightarrow> Context \<Rightarrow> Client \<Rightarrow> world \<Rightarrow> (string \<times> error option) \<times> Client \<times> world" where
  "GetVersion_refresh L ctx c w =
     (case getResponse L (Unmarshal_Version L) ctx c ''getVersion'' []
             (zero_Response \<lparr>Version = []\<rparr>) w of
        ((Some err, resp), w') \<Rightarrow> (([], Some err), c, w')
      | ((None, resp), w') \<Rightarrow>
          ((Version (Result resp), None),
           c\<lparr>versionCache := Some \<lparr>cvalue = Version (Result resp), timestamp = now w'\<rparr>\<rparr>,
           w'))"

definition GetVersion ::
  "'e lib \<Rightarrow> Context \<Rightarrow> Client \<Rightarrow> world \<Rightarrow> (string \<times> error option) \<times> Client \<times> world" where
  "GetVersion L ctx c w =
     (case versionCache c of
        Some cv \<Rightarrow>
          if sint (time_Since w (timestamp cv)) < sint (cacheValidity c)
          then ((cvalue cv, None), c, log c Debug_version_cached w)
          else GetVersion_refresh L ctx c w
      | None \<Rightarrow> GetVersion_refresh L ctx c w)"

text \<open>Lines 239 to 252 of GetHealth.\<close>

definition GetHealth_refresh ::
  "'e lib \<Rightarrow> Context \<Rightarrow> Client \<Rightarrow> world \<Rightarrow> (string \<times> error option) \<times> Client \<times> world" where
  "GetHealth_refresh L ctx c w =
     (case getResponse L (Unmarshal_string L) ctx c ''getHealth'' [] (zero_Response []) w of
        ((Some err, resp), w') \<Rightarrow> (([], Some err), c, w')
      | ((None, resp), w') \<Rightarrow>
          ((Result resp, None),
           c\<lparr>healthCache := Some \<lparr>cvalue = Result resp, timestamp = now w'\<rparr>\<rparr>,
           w'))"

definition GetHealth ::
  "'e lib \<Rightarrow> Context \<Rightarrow> Client \<Rightarrow> world \<Rightarrow> (string \<times> error option) \<times> Client \<times> world" where
  "GetHealth L ctx c w =
     (case healthCache c of
        Some cv \<Rightarrow>
          if sint (time_Since w (timestamp cv)) < sint (cacheValidity c)
          then ((cvalue cv, None), c, log c Debug_health_cached w)
          else GetHealth_refresh L ctx c w
      | None \<Rightarrow> GetHealth_refresh L ctx c w)"

definition GetMinimumLedgerSlot ::
  "'e lib \<Rightarrow> Context \<Rightarrow> Client \<Rightarrow> world \<Rightarrow> (int64 \<times> error option) \<times> Client \<times> world" where
  "GetMinimumLedgerSlot L ctx c w =
     (case getResponse L (Unmarshal_int64 L) ctx c ''minimumLedgerSlot'' []
             (zero_Response 0) w of
        ((Some err, resp), w') \<Rightarrow> ((0, Some err), c, w')
      | ((None, resp), w') \<Rightarrow> ((Result resp, None), c, w'))"

definition GetFirstAvailableBlock ::
  "'e lib \<Rightarrow> Context \<Rightarrow> Client \<Rightarrow> world \<Rightarrow> (int64 \<times> error option) \<times> Client \<times> world" where
  "GetFirstAvailableBlock L ctx c w =
     (case getResponse L (Unmarshal_int64 L) ctx c ''getFirstAvailableBlock'' []
             (zero_Response 0) w of
        ((Some err, resp), w') \<Rightarrow> ((0, Some err), c, w')
      | ((None, resp), w') \<Rightarrow> ((Result resp, None), c, w'))"

subsection \<open>TestConnection\<close>

definition maxRetries :: int where
  "maxRetries = 3"

text \<open>The verb \<open>%d\<close> of fmt on a non-negative int.\<close>

definition digit :: "nat \<Rightarrow> char" where
  "digit n = ''0123456789'' ! (n mod 10)"

function decimal :: "nat \<Rightarrow> string" where
  "decimal n = (if n < 10 then [digit n] else decimal (n div 10) @ [digit n])"
  by pat_completeness auto
termination
  by (relation "measure id") auto

declare decimal.simps [simp del]

definition fmt_d :: "int \<Rightarrow> string" where
  "fmt_d n = (if n < 0 then CHR ''-'' # decimal (nat (- n)) else decimal (nat n))"

text \<open>
  The \<open>select\<close> of lines 96 to 101 on \<open>ctx.Done()\<close> and \<open>time.After(retryDelay)\<close>:
  the timer is started, and the world's script says which channel delivers first.
  A timer that fires does so \<open>retryDelay\<close> after it was started (at once when the
  delay is not positive).
\<close>

datatype select_case = CtxDone | TimerFired

definition select_backoff :: "Duration \<Rightarrow> world \<Rightarrow> select_case \<times> world" where
  "select_backoff retryDelay w =
     (let w1 = w\<lparr>timers := timers w @ [retryDelay]\<rparr> in
      case done_first w (length (timers w)) of
        Some dt \<Rightarrow> (CtxDone, w1\<lparr>now := now w1 + int dt\<rparr>)
      | None \<Rightarrow> (TimerFired, w1\<lparr>now := now w1 + max 0 (sint retryDelay)\<rparr>))"

text \<open>
  Lines 85 to 93, one attempt: the version fetch and, when it fails, the warning.
  The result is \<open>err\<close>, the client and the world.
\<close>

definition TestConnection_attempt ::
  "'e lib \<Rightarrow> Context \<Rightarrow> int \<Rightarrow> Client \<Rightarrow> world \<Rightarrow> error option \<times> Client \<times> world" where
  "TestConnection_attempt L ctx i c w =
     (case GetVersion L ctx c w of
        ((v, None), c', w') \<Rightarrow> (None, c', w')
      | ((v, Some err), c', w') \<Rightarrow>
          (Some err, c', log c' (Warnf_attempt (i + 1) maxRetries err) w'))"

text \<open>The loop of lines 84 to 103 from the state \<open>(i, retryDelay, lastErr)\<close>, and line 105.\<close>

function TestConnection_loop ::
  "'e lib \<Rightarrow> Context \<Rightarrow> int \<Rightarrow> Duration \<Rightarrow> error option \<Rightarrow> Client \<Rightarrow> world \<Rightarrow>
   error option \<times> Client \<times> world" where
  "TestConnection_loop L ctx i retryDelay lastErr c w =
     (if i < maxRetries then
        (case TestConnection_attempt L ctx i c w of
           (None, c', w') \<Rightarrow> (None, c', w')
         | (Some err, c', w') \<Rightarrow>
             if i < maxRetries - 1 then
               (case select_backoff retryDelay w' of
                  (CtxDone, w'') \<Rightarrow> (Some (Err ctx), c', w'')
                | (TimerFired, w'') \<Rightarrow>
                    TestConnection_loop L ctx (i + 1) (retryDelay * 2) (Some err) c' w'')
             else TestConnection_loop L ctx (i + 1) retryDelay (Some err) c' w')
      else (Some (Errorf (''failed to connect after '' @ fmt_d maxRetries @ '' attempts: '')
                    lastErr), c, w))"
  by pat_completeness auto
termination
  by (relation "measure (\<lambda>(L, ctx, i, retryDelay, lastErr, c, w). nat (maxRetries - i))") auto

declare TestConnection_loop.simps [simp del]

definition TestConnection ::
  "'e lib \<Rightarrow> Context \<Rightarrow> Client \<Rightarrow> world \<Rightarrow> error option \<times> Client \<times> world" where
  "TestConnection L ctx c w = TestConnection_loop L ctx 0 (Second * 2) None c w"

subsection \<open>Example values\<close>

text \<open>
  A library whose decoders read three bodies: \<open>err\<close> is a response with a result and
  a non-zero error code, \<open>bad\<close> does not decode, anything else is a result.
\<close>

definition example_error :: RPCError where
  "example_error = \<lparr>Code = - 32005, Message = ''node is behind'', RPCError_Method = []\<rparr>"

definition example_Unmarshal ::
  "(string \<Rightarrow> 'a) \<Rightarrow> string \<Rightarrow> 'a Response \<Rightarrow> error option \<times> 'a Response" where
  "example_Unmarshal f body r =
     (if body = ''err'' then (None, r\<lparr>Result := f body, Error := example_error\<rparr>)
      else if body = ''bad'' then (Some (External ''invalid character''), r)
      else (None, r\<lparr>Result := f body\<rparr>))"

definition example_lib :: "nat lib" where
  "example_lib =
     \<lparr>NewRequestWithContext = (\<lambda>ctx url. None),
      slog_Get = True,
      Unmarshal_int64 = example_Unmarshal (\<lambda>b. word_of_nat (length b)),
      Unmarshal_EpochInfo = example_Unmarshal length,
      Unmarshal_Version = example_Unmarshal (\<lambda>b. \<lparr>Version = b\<rparr>),
      Unmarshal_string = example_Unmarshal (\<lambda>b. b),
      zero_EpochInfo = 0\<rparr>"

definition example_ctx :: Context where
  "example_ctx = \<lparr>Err = External ''context canceled''\<rparr>"

definition example_client :: Client where
  "example_client = NewRPCClient example_lib ''http://localhost:8899'' (10 * Second)"

text \<open>A world at instant 0 in which every exchange yields the body \<open>b\<close> and every timer fires.\<close>

definition example_world :: "string \<Rightarrow> world" where
  "example_world b =
     \<lparr>now = 0, http = (\<lambda>n. Body 3 4 b), posts = [], done_first = (\<lambda>n. None),
      timers = [], logs = []\<rparr>"

text \<open>A world in which no connection can be made.\<close>

definition example_down :: world where
  "example_down = (example_world [])\<lparr>http := (\<lambda>n. DoError 5 (External ''connection refused''))\<rparr>"

text \<open>The example client with both slots filled at instant \<open>t\<close>.\<close>

definition example_cached :: "Time \<Rightarrow> Client" where
  "example_cached t =
     example_client\<lparr>versionCache := Some \<lparr>cvalue = ''1.17.0'', timestamp = t\<rparr>,
                    healthCache := Some \<lparr>cvalue = ''ok'', timestamp = t\<rparr>\<rparr>"

text \<open>No connection can be made, and the context is done 1000 ns into the wait number \<open>k\<close>.\<close>

definition example_cancel :: "nat \<Rightarrow> world" where
  "example_cancel k = example_down\<lparr>done_first := (\<lambda>n. if n = k then Some 1000 else None)\<rparr>"

section \<open>Properties\<close>

subsection \<open>Logging, time and the codec's effects\<close>

lemma log_frame [simp]:
  "now (log c e w) = now w" "http (log c e w) = http w" "posts (log c e w) = posts w"
  "done_first (log c e w) = done_first w" "timers (log c e w) = timers w"
  by (simp_all add: log_def)

lemma sint_maxDuration: "sint maxDuration = 9223372036854775807"
  by (simp add: maxDuration_def)

lemma sint_minDuration: "sint minDuration = - 9223372036854775808"
  by (simp add: minDuration_def)

lemma sint_range64:
  "- 9223372036854775808 \<le> sint (x :: 64 word)" "sint (x :: 64 word) \<le> 9223372036854775807"
  using sint_ge [of x] sint_lt [of x] by simp_all

lemma sint_Sub_exact:
  assumes "- 9223372036854775808 \<le> t - u" and "t - u \<le> 9223372036854775807"
  shows "sint (Sub t u) = t - u"
proof -
  have "signed_take_bit 63 (t - u) = t - u"
    using assms by (intro signed_take_bit_int_eq_self) simp_all
  then have "sint (word_of_int (t - u) :: 64 word) = t - u"
    by (simp only: sint_sbintrunc') simp
  then show ?thesis
    using assms
    by (simp add: Sub_def Let_def sint_maxDuration sint_minDuration del: of_int_diff)
qed

lemma Sub_at_ttl: "\<not> sint (Sub (u + sint ttl) u) < sint (ttl :: Duration)"
  using sint_Sub_exact [of "u + sint ttl" u] sint_range64 [of ttl] by simp

lemma Sub_less_iff:
  assumes "ttl \<noteq> minDuration"
  shows "sint (Sub t u) < sint ttl \<longleftrightarrow> t - u < sint ttl"
proof -
  have ne: "sint ttl \<noteq> - 9223372036854775808"
    using assms sint_minDuration word_eq_iff_signed [where ?'a = int, of ttl minDuration]
    by simp
  consider "t - u > 9223372036854775807" | "t - u < - 9223372036854775808"
    | "- 9223372036854775808 \<le> t - u" "t - u \<le> 9223372036854775807"
    by linarith
  then show ?thesis
  proof cases
    case 1
    then show ?thesis
      using sint_range64 [of ttl]
      by (simp add: Sub_def Let_def sint_maxDuration sint_minDuration)
  next
    case 2
    then show ?thesis
      using sint_range64 [of ttl] ne
      by (simp add: Sub_def Let_def sint_maxDuration sint_minDuration)
  next
    case 3
    then show ?thesis by (simp add: sint_Sub_exact)
  qed
qed

lemma getResponse_frame:
  "timers (snd (getResponse L um ctx c m ps r0 w)) = timers w"
  "done_first (snd (getResponse L um ctx c m ps r0 w)) = done_first w"
  "http (snd (getResponse L um ctx c m ps r0 w)) = http w"
  by (simp_all add: getResponse_def Let_def
        split: sum.splits option.splits exchange.splits prod.splits)

lemma getResponse_posts:
  "posts (snd (getResponse L um ctx c m ps r0 w)) = posts w \<or>
   posts (snd (getResponse L um ctx c m ps r0 w)) =
     posts w @ [(RpcUrl c, JSON \<lparr>Jsonrpc = ''2.0'', Id = 1, Method = m, Params = ps\<rparr>)]"
  by (simp add: getResponse_def Let_def json_Marshal_def
        split: sum.splits option.splits exchange.splits prod.splits)

lemma getResponse_ok_posts:
  "fst (fst (getResponse L um ctx c m ps r0 w)) = None \<Longrightarrow>
   posts (snd (getResponse L um ctx c m ps r0 w)) =
     posts w @ [(RpcUrl c, JSON \<lparr>Jsonrpc = ''2.0'', Id = 1, Method = m, Params = ps\<rparr>)]"
  by (simp add: getResponse_def Let_def json_Marshal_def
        split: sum.splits option.splits exchange.splits prod.splits if_splits)

lemma getResponse_sent:
  "Unencodable \<notin> set ps \<Longrightarrow> NewRequestWithContext L ctx (RpcUrl c) = None \<Longrightarrow>
   posts (snd (getResponse L um ctx c m ps r0 w)) =
     posts w @ [(RpcUrl c, JSON \<lparr>Jsonrpc = ''2.0'', Id = 1, Method = m, Params = ps\<rparr>)]"
  by (simp add: getResponse_def Let_def json_Marshal_def
        split: sum.splits option.splits exchange.splits prod.splits if_splits)

lemma getResponse_rpc_error:
  assumes "Unencodable \<notin> set params"
      and "NewRequestWithContext L ctx (RpcUrl client) = None"
      and "http w (length (posts w)) = Body d d' body"
      and "unmarshal body rpcResponse = (None, r)"
      and "Code (Error r) \<noteq> 0"
  shows "fst (getResponse L unmarshal ctx client method params rpcResponse w) =
           (Some (PtrRPCError ((Error r)\<lparr>RPCError_Method := method\<rparr>)),
            r\<lparr>Error := (Error r)\<lparr>RPCError_Method := method\<rparr>\<rparr>)"
  using assms by (simp add: getResponse_def Let_def json_Marshal_def)

subsection \<open>Each typed method as one call of the codec\<close>

lemma GetBlockTime_via:
  "GetBlockTime L ctx c slot w =
     (let G = getResponse L (Unmarshal_int64 L) ctx c ''getBlockTime'' [Int64 slot]
                (zero_Response 0) w
      in ((if fst (fst G) = None then Result (snd (fst G)) else 0, fst (fst G)), c, snd G))"
  by (simp add: GetBlockTime_def Let_def split: prod.splits option.splits)

lemma GetMinimumLedgerSlot_via:
  "GetMinimumLedgerSlot L ctx c w =
     (let G = getResponse L (Unmarshal_int64 L) ctx c ''minimumLedgerSlot'' []
                (zero_Response 0) w
      in ((if fst (fst G) = None then Result (snd (fst G)) else 0, fst (fst G)), c, snd G))"
  by (simp add: GetMinimumLedgerSlot_def Let_def split: prod.splits option.splits)

lemma GetFirstAvailableBlock_via:
  "GetFirstAvailableBlock L ctx c w =
     (let G = getResponse L (Unmarshal_int64 L) ctx c ''getFirstAvailableBlock'' []
                (zero_Response 0) w
      in ((if fst (fst G) = None then Result (snd (fst G)) else 0, fst (fst G)), c, snd G))"
  by (simp add: GetFirstAvailableBlock_def Let_def split: prod.splits option.splits)

lemma GetEpochInfo_via:
  "GetEpochInfo L ctx c commitment w =
     (let G = getResponse L (Unmarshal_EpochInfo L) ctx c ''getEpochInfo''
                [StringMap [(''commitment'', commitment)]] (zero_Response (zero_EpochInfo L)) w
      in ((if fst (fst G) = None then Some (Result (snd (fst G))) else None, fst (fst G)),
          c, snd G))"
  by (simp add: GetEpochInfo_def Let_def split: prod.splits option.splits)

lemma GetVersion_refresh_via:
  "GetVersion_refresh L ctx c w =
     (let G = getResponse L (Unmarshal_Version L) ctx c ''getVersion'' []
                (zero_Response \<lparr>Version = []\<rparr>) w
      in ((if fst (fst G) = None then Version (Result (snd (fst G))) else [], fst (fst G)),
          (if fst (fst G) = None
           then c\<lparr>versionCache :=
                    Some \<lparr>cvalue = Version (Result (snd (fst G))), timestamp = now (snd G)\<rparr>\<rparr>
           else c),
          snd G))"
  by (simp add: GetVersion_refresh_def Let_def split: prod.splits option.splits)

lemma GetHealth_refresh_via:
  "GetHealth_refresh L ctx c w =
     (let G = getResponse L (Unmarshal_string L) ctx c ''getHealth'' [] (zero_Response []) w
      in ((if fst (fst G) = None then Result (snd (fst G)) else [], fst (fst G)),
          (if fst (fst G) = None
           then c\<lparr>healthCache :=
                    Some \<lparr>cvalue = Result (snd (fst G)), timestamp = now (snd G)\<rparr>\<rparr>
           else c),
          snd G))"
  by (simp add: GetHealth_refresh_def Let_def split: prod.splits option.splits)

lemma GetVersion_fresh:
  "versionCache c = Some cv \<Longrightarrow> sint (time_Since w (timestamp cv)) < sint (cacheValidity c) \<Longrightarrow>
   GetVersion L ctx c w = ((cvalue cv, None), c, log c Debug_version_cached w)"
  by (simp add: GetVersion_def)

lemma GetVersion_stale:
  "\<forall>cv. versionCache c = Some cv \<longrightarrow>
          \<not> sint (time_Since w (timestamp cv)) < sint (cacheValidity c) \<Longrightarrow>
   GetVersion L ctx c w = GetVersion_refresh L ctx c w"
  by (simp add: GetVersion_def split: option.splits)

lemma GetHealth_fresh:
  "healthCache c = Some cv \<Longrightarrow> sint (time_Since w (timestamp cv)) < sint (cacheValidity c) \<Longrightarrow>
   GetHealth L ctx c w = ((cvalue cv, None), c, log c Debug_health_cached w)"
  by (simp add: GetHealth_def)

lemma GetHealth_stale:
  "\<forall>cv. healthCache c = Some cv \<longrightarrow>
          \<not> sint (time_Since w (timestamp cv)) < sint (cacheValidity c) \<Longrightarrow>
   GetHealth L ctx c w = GetHealth_refresh L ctx c w"
  by (simp add: GetHealth_def split: option.splits)

subsection \<open>The example values\<close>

lemma example_facts:
  "NewRequestWithContext example_lib ctx url = None"
  "http (example_world b) n = Body 3 4 b"
  "posts (example_world b) = []"
  "example_Unmarshal f ''err'' r = (None, r\<lparr>Result := f ''err'', Error := example_error\<rparr>)"
  "Code example_error \<noteq> 0"
  by (simp_all add: example_lib_def example_world_def example_Unmarshal_def example_error_def)

subsection \<open>Errors of the node take precedence over results\<close>

text \<open>
  Claim C1. When the request can be encoded and created, the exchange yields a body and
  the body decodes to a response \<open>r\<close> whose error code is not zero, \<open>getResponse\<close>
  returns, for every method name, the error of \<open>r\<close> with the method name put into it,
  whatever the result field of \<open>r\<close> holds; the target then holds \<open>r\<close> with that same
  error. None of the typed methods hands the result of such a response to its caller:
  each returns the zero value of its type with that error (for the two cached methods,
  on the path that calls the codec).
\<close>

theorem error_takes_precedence:
  assumes "Unencodable \<notin> set params"
      and "NewRequestWithContext L ctx (RpcUrl client) = None"
      and "http w (length (posts w)) = Body d d' body"
      and "unmarshal body rpcResponse = (None, r)"
      and "Code (Error r) \<noteq> 0"
  shows "fst (getResponse L unmarshal ctx client method params rpcResponse w) =
           (Some (PtrRPCError ((Error r)\<lparr>RPCError_Method := method\<rparr>)),
            r\<lparr>Error := (Error r)\<lparr>RPCError_Method := method\<rparr>\<rparr>) \<and>
         (\<forall>slot r1. Unmarshal_int64 L body (zero_Response 0) = (None, r1) \<longrightarrow>
            Code (Error r1) \<noteq> 0 \<longrightarrow>
            fst (GetBlockTime L ctx client slot w) =
              (0, Some (PtrRPCError ((Error r1)\<lparr>RPCError_Method := ''getBlockTime''\<rparr>))) \<and>
            fst (GetMinimumLedgerSlot L ctx client w) =
              (0, Some (PtrRPCError ((Error r1)\<lparr>RPCError_Method := ''minimumLedgerSlot''\<rparr>))) \<and>
            fst (GetFirstAvailableBlock L ctx client w) =
              (0, Some (PtrRPCError
                          ((Error r1)\<lparr>RPCError_Method := ''getFirstAvailableBlock''\<rparr>)))) \<and>
         (\<forall>commitment r2. Unmarshal_EpochInfo L body (zero_Response (zero_EpochInfo L)) = (None, r2) \<longrightarrow>
            Code (Error r2) \<noteq> 0 \<longrightarrow>
            fst (GetEpochInfo L ctx client commitment w) =
              (None, Some (PtrRPCError ((Error r2)\<lparr>RPCError_Method := ''getEpochInfo''\<rparr>)))) \<and>
         (\<forall>r3. Unmarshal_Version L body (zero_Response \<lparr>Version = []\<rparr>) = (None, r3) \<longrightarrow>
            Code (Error r3) \<noteq> 0 \<longrightarrow>
            fst (GetVersion_refresh L ctx client w) =
              ([], Some (PtrRPCError ((Error r3)\<lparr>RPCError_Method := ''getVersion''\<rparr>)))) \<and>
         (\<forall>r4. Unmarshal_string L body (zero_Response []) = (None, r4) \<longrightarrow>
            Code (Error r4) \<noteq> 0 \<longrightarrow>
            fst (GetHealth_refresh L ctx client w) =
              ([], Some (PtrRPCError ((Error r4)\<lparr>RPCError_Method := ''getHealth''\<rparr>))))"
proof -
  note E1 = getResponse_rpc_error [where unmarshal = "Unmarshal_int64 L"
      and rpcResponse = "zero_Response 0", OF _ assms(2) assms(3)]
  note E2 = getResponse_rpc_error [where unmarshal = "Unmarshal_EpochInfo L"
      and rpcResponse = "zero_Response (zero_EpochInfo L)", OF _ assms(2) assms(3)]
  note E3 = getResponse_rpc_error [where unmarshal = "Unmarshal_Version L"
      and rpcResponse = "zero_Response \<lparr>Version = []\<rparr>", OF _ assms(2) assms(3)]
  note E4 = getResponse_rpc_error [where unmarshal = "Unmarshal_string L"
      and rpcResponse = "zero_Response []", OF _ assms(2) assms(3)]
  have codec: "fst (getResponse L unmarshal ctx client method params rpcResponse w) =
           (Some (PtrRPCError ((Error r)\<lparr>RPCError_Method := method\<rparr>)),
            r\<lparr>Error := (Error r)\<lparr>RPCError_Method := method\<rparr>\<rparr>)"
    using assms
    by (rule getResponse_rpc_error [where unmarshal = unmarshal and rpcResponse = rpcResponse])
  have i64: "\<And>m ps r1. Unencodable \<notin> set ps \<Longrightarrow>
      Unmarshal_int64 L body (zero_Response 0) = (None, r1) \<Longrightarrow> Code (Error r1) \<noteq> 0 \<Longrightarrow>
      fst (fst (getResponse L (Unmarshal_int64 L) ctx client m ps (zero_Response 0) w)) =
        Some (PtrRPCError ((Error r1)\<lparr>RPCError_Method := m\<rparr>))"
    using E1 by simp
  have bt: "\<And>slot r1. Unmarshal_int64 L body (zero_Response 0) = (None, r1) \<Longrightarrow>
      Code (Error r1) \<noteq> 0 \<Longrightarrow>
      fst (GetBlockTime L ctx client slot w) =
        (0, Some (PtrRPCError ((Error r1)\<lparr>RPCError_Method := ''getBlockTime''\<rparr>)))"
    by (simp add: GetBlockTime_via Let_def i64)
  have ml: "\<And>r1. Unmarshal_int64 L body (zero_Response 0) = (None, r1) \<Longrightarrow>
      Code (Error r1) \<noteq> 0 \<Longrightarrow>
      fst (GetMinimumLedgerSlot L ctx client w) =
        (0, Some (PtrRPCError ((Error r1)\<lparr>RPCError_Method := ''minimumLedgerSlot''\<rparr>)))"
    by (simp add: GetMinimumLedgerSlot_via Let_def i64)
  have fa: "\<And>r1. Unmarshal_int64 L body (zero_Response 0) = (None, r1) \<Longrightarrow>
      Code (Error r1) \<noteq> 0 \<Longrightarrow>
      fst (GetFirstAvailableBlock L ctx client w) =
        (0, Some (PtrRPCError ((Error r1)\<lparr>RPCError_Method := ''getFirstAvailableBlock''\<rparr>)))"
    by (simp add: GetFirstAvailableBlock_via Let_def i64)
  have ei: "\<And>commitment r2.
      Unmarshal_EpochInfo L body (zero_Response (zero_EpochInfo L)) = (None, r2) \<Longrightarrow>
      Code (Error r2) \<noteq> 0 \<Longrightarrow>
      fst (GetEpochInfo L ctx client commitment w) =
        (None, Some (PtrRPCError ((Error r2)\<lparr>RPCError_Method := ''getEpochInfo''\<rparr>)))"
    using E2 by (simp add: GetEpochInfo_via Let_def)
  have gv: "\<And>r3. Unmarshal_Version L body (zero_Response \<lparr>Version = []\<rparr>) = (None, r3) \<Longrightarrow>
      Code (Error r3) \<noteq> 0 \<Longrightarrow>
      fst (GetVersion_refresh L ctx client w) =
        ([], Some (PtrRPCError ((Error r3)\<lparr>RPCError_Method := ''getVersion''\<rparr>)))"
    using E3 by (simp add: GetVersion_refresh_via Let_def)
  have gh: "\<And>r4. Unmarshal_string L body (zero_Response []) = (None, r4) \<Longrightarrow>
      Code (Error r4) \<noteq> 0 \<Longrightarrow>
      fst (GetHealth_refresh L ctx client w) =
        ([], Some (PtrRPCError ((Error r4)\<lparr>RPCError_Method := ''getHealth''\<rparr>)))"
    using E4 by (simp add: GetHealth_refresh_via Let_def)
  show ?thesis
    using codec bt ml fa ei gv gh by blast
qed

theorem error_takes_precedence_witness:
  "fst (getResponse example_lib (example_Unmarshal (\<lambda>b. b)) example_ctx example_client
          ''getHealth'' [] (zero_Response []) (example_world ''err'')) =
     (Some (PtrRPCError \<lparr>Code = - 32005, Message = ''node is behind'',
                          RPCError_Method = ''getHealth''\<rparr>),
      \<lparr>Result = ''err'',
       Error = \<lparr>Code = - 32005, Message = ''node is behind'', RPCError_Method = ''getHealth''\<rparr>\<rparr>) \<and>
   fst (GetBlockTime example_lib example_ctx example_client 9 (example_world ''err'')) =
     (0, Some (PtrRPCError \<lparr>Code = - 32005, Message = ''node is behind'',
                             RPCError_Method = ''getBlockTime''\<rparr>))"
proof -
  have h1: "Unencodable \<notin> set []" by simp
  have h2: "NewRequestWithContext example_lib example_ctx (RpcUrl example_client) = None"
    by (simp add: example_facts)
  have h3: "http (example_world ''err'') (length (posts (example_world ''err''))) = Body 3 4 ''err''"
    by (simp add: example_facts)
  have h4: "example_Unmarshal (\<lambda>b. b) ''err'' (zero_Response []) =
              (None, (zero_Response [])\<lparr>Result := ''err'', Error := example_error\<rparr>)"
    by (simp add: example_facts)
  have h5: "Code (Error ((zero_Response [])\<lparr>Result := ''err'', Error := example_error\<rparr>)) \<noteq> 0"
    by (simp add: example_facts)
  have u: "Unmarshal_int64 example_lib ''err'' (zero_Response 0) =
             (None, (zero_Response 0)\<lparr>Result := 3, Error := example_error\<rparr>)"
    by (simp add: example_lib_def example_facts)
  show ?thesis
    using error_takes_precedence [where unmarshal = "example_Unmarshal (\<lambda>b. b)"
        and rpcResponse = "zero_Response []", OF h1 h2 h3 h4 h5, of "''getHealth''"] u
    by (simp add: zero_Response_def example_error_def)
qed

subsection \<open>The constructor\<close>

text \<open>
  Claim C10. Whatever address and timeout are given (and whatever the library is),
  the client built by \<open>NewRPCClient\<close> has a cache validity of 60 seconds, which is
  60000000000 nanoseconds, and both cache slots are empty.
\<close>

theorem NewRPCClient_cacheValidity:
  "cacheValidity (NewRPCClient L rpcAddr httpTimeout) = 60 * Second \<and>
   sint (cacheValidity (NewRPCClient L rpcAddr httpTimeout)) = 60000000000 \<and>
   versionCache (NewRPCClient L rpcAddr httpTimeout) = None \<and>
   healthCache (NewRPCClient L rpcAddr httpTimeout) = None"
  by (simp add: NewRPCClient_def Second_def)

lemma example_down_facts:
  "http example_down n = DoError 5 (External ''connection refused'')"
  "posts example_down = []" "now example_down = 0" "timers example_down = []"
  "done_first example_down n = None" "logs example_down = []"
  by (simp_all add: example_down_def example_world_def)

lemma example_client_facts:
  "RpcUrl example_client = ''http://localhost:8899''"
  "logger example_client" "versionCache example_client = None"
  "healthCache example_client = None" "cacheValidity example_client = 60 * Second"
  by (simp_all add: example_client_def NewRPCClient_def example_lib_def)

lemma example_down_getResponse:
  "Unencodable \<notin> set ps \<Longrightarrow>
   fst (getResponse example_lib um example_ctx example_client m ps r0 example_down) =
     (Some (Errorf (m @ '' RPC call failed: '') (Some (External ''connection refused''))), r0)"
  by (simp add: getResponse_def Let_def json_Marshal_def example_facts example_down_facts)

subsection \<open>An error comes with the zero value\<close>

lemma GetVersion_zero:
  "snd (fst (GetVersion L ctx c w)) \<noteq> None \<Longrightarrow> fst (fst (GetVersion L ctx c w)) = []"
  by (auto simp add: GetVersion_def GetVersion_refresh_via Let_def
        split: option.splits if_splits)

lemma GetHealth_zero:
  "snd (fst (GetHealth L ctx c w)) \<noteq> None \<Longrightarrow> fst (fst (GetHealth L ctx c w)) = []"
  by (auto simp add: GetHealth_def GetHealth_refresh_via Let_def
        split: option.splits if_splits)

text \<open>
  Claim C9. Whenever a typed method returns an error that is not nil, the value it
  returns with it is the zero value of its result type: 0 for GetBlockTime,
  GetMinimumLedgerSlot and GetFirstAvailableBlock, the empty string for GetVersion and
  GetHealth, the nil pointer for GetEpochInfo.
\<close>

theorem error_with_zero_value:
  "(snd (fst (GetBlockTime L ctx c slot w)) \<noteq> None \<longrightarrow>
      fst (fst (GetBlockTime L ctx c slot w)) = 0) \<and>
   (snd (fst (GetMinimumLedgerSlot L ctx c w)) \<noteq> None \<longrightarrow>
      fst (fst (GetMinimumLedgerSlot L ctx c w)) = 0) \<and>
   (snd (fst (GetFirstAvailableBlock L ctx c w)) \<noteq> None \<longrightarrow>
      fst (fst (GetFirstAvailableBlock L ctx c w)) = 0) \<and>
   (snd (fst (GetVersion L ctx c w)) \<noteq> None \<longrightarrow> fst (fst (GetVersion L ctx c w)) = []) \<and>
   (snd (fst (GetHealth L ctx c w)) \<noteq> None \<longrightarrow> fst (fst (GetHealth L ctx c w)) = []) \<and>
   (snd (fst (GetEpochInfo L ctx c commitment w)) \<noteq> None \<longrightarrow>
      fst (fst (GetEpochInfo L ctx c commitment w)) = None)"
proof -
  have 1: "snd (fst (GetBlockTime L ctx c slot w)) \<noteq> None \<longrightarrow>
      fst (fst (GetBlockTime L ctx c slot w)) = 0"
    by (simp add: GetBlockTime_via Let_def)
  have 2: "snd (fst (GetMinimumLedgerSlot L ctx c w)) \<noteq> None \<longrightarrow>
      fst (fst (GetMinimumLedgerSlot L ctx c w)) = 0"
    by (simp add: GetMinimumLedgerSlot_via Let_def)
  have 3: "snd (fst (GetFirstAvailableBlock L ctx c w)) \<noteq> None \<longrightarrow>
      fst (fst (GetFirstAvailableBlock L ctx c w)) = 0"
    by (simp add: GetFirstAvailableBlock_via Let_def)
  have 4: "snd (fst (GetEpochInfo L ctx c commitment w)) \<noteq> None \<longrightarrow>
      fst (fst (GetEpochInfo L ctx c commitment w)) = None"
    by (simp add: GetEpochInfo_via Let_def)
  show ?thesis
    using 1 2 3 4 GetVersion_zero [of L ctx c w] GetHealth_zero [of L ctx c w] by blast
qed

theorem error_with_zero_value_witness:
  "fst (GetBlockTime example_lib example_ctx example_client 9 example_down) =
     (0, Some (Errorf ''getBlockTime RPC call failed: ''
                 (Some (External ''connection refused'')))) \<and>
   fst (GetVersion example_lib example_ctx example_client example_down) =
     ([], Some (Errorf ''getVersion RPC call failed: ''
                  (Some (External ''connection refused'')))) \<and>
   fst (GetEpochInfo example_lib example_ctx example_client ''finalized'' example_down) =
     (None, Some (Errorf ''getEpochInfo RPC call failed: ''
                    (Some (External ''connection refused''))))"
proof -
  have e1: "snd (fst (GetBlockTime example_lib example_ctx example_client 9 example_down)) =
      Some (Errorf ''getBlockTime RPC call failed: '' (Some (External ''connection refused'')))"
    by (simp add: GetBlockTime_via Let_def example_down_getResponse)
  have e2: "snd (fst (GetVersion example_lib example_ctx example_client example_down)) =
      Some (Errorf ''getVersion RPC call failed: '' (Some (External ''connection refused'')))"
    by (simp add: GetVersion_def GetVersion_refresh_via Let_def example_down_getResponse
          example_client_facts)
  have e3: "snd (fst (GetEpochInfo example_lib example_ctx example_client ''finalized''
                        example_down)) =
      Some (Errorf ''getEpochInfo RPC call failed: '' (Some (External ''connection refused'')))"
    by (simp add: GetEpochInfo_via Let_def example_down_getResponse)
  show ?thesis
    using error_with_zero_value [of example_lib example_ctx example_client 9 example_down
        "''finalized''"] e1 e2 e3
    by (simp add: prod_eq_iff)
qed

subsection \<open>One call of the codec, and no retry\<close>

lemma getResponse_posts_le:
  "length (posts (snd (getResponse L um ctx c m ps r0 w))) \<le> length (posts w) + 1"
  using getResponse_posts [of L um ctx c m ps r0 w] by auto

lemma GetVersion_world:
  "snd (snd (GetVersion L ctx c w)) = log c Debug_version_cached w \<or>
   snd (snd (GetVersion L ctx c w)) = snd (snd (GetVersion_refresh L ctx c w))"
  by (simp add: GetVersion_def split: option.splits)

lemma GetHealth_world:
  "snd (snd (GetHealth L ctx c w)) = log c Debug_health_cached w \<or>
   snd (snd (GetHealth L ctx c w)) = snd (snd (GetHealth_refresh L ctx c w))"
  by (simp add: GetHealth_def split: option.splits)

lemma GetVersion_refresh_world:
  "snd (snd (GetVersion_refresh L ctx c w)) =
     snd (getResponse L (Unmarshal_Version L) ctx c ''getVersion'' []
            (zero_Response \<lparr>Version = []\<rparr>) w)"
  by (simp add: GetVersion_refresh_via Let_def)

lemma GetHealth_refresh_world:
  "snd (snd (GetHealth_refresh L ctx c w)) =
     snd (getResponse L (Unmarshal_string L) ctx c ''getHealth'' [] (zero_Response []) w)"
  by (simp add: GetHealth_refresh_via Let_def)

lemma GetVersion_effects:
  "length (posts (snd (snd (GetVersion L ctx c w)))) \<le> length (posts w) + 1"
  "timers (snd (snd (GetVersion L ctx c w))) = timers w"
  "done_first (snd (snd (GetVersion L ctx c w))) = done_first w"
  using GetVersion_world [of L ctx c w]
    getResponse_posts_le [of L "Unmarshal_Version L" ctx c "''getVersion''" "[]"
      "zero_Response \<lparr>Version = []\<rparr>" w]
  by (auto simp add: GetVersion_refresh_world getResponse_frame)

lemma GetHealth_effects:
  "length (posts (snd (snd (GetHealth L ctx c w)))) \<le> length (posts w) + 1"
  "timers (snd (snd (GetHealth L ctx c w))) = timers w"
  "done_first (snd (snd (GetHealth L ctx c w))) = done_first w"
  using GetHealth_world [of L ctx c w]
    getResponse_posts_le [of L "Unmarshal_string L" ctx c "''getHealth''" "[]"
      "zero_Response []" w]
  by (auto simp add: GetHealth_refresh_world getResponse_frame)

text \<open>
  Claim C7. For GetBlockTime, GetEpochInfo, GetMinimumLedgerSlot, GetFirstAvailableBlock
  and the refresh paths of GetVersion and GetHealth, with \<open>G\<close> the one call of
  \<open>getResponse\<close> the method is written with: the error the method returns is the
  error of \<open>G\<close>, as it is (nil when \<open>G\<close> succeeds, and otherwise the failure of that
  first attempt, not wrapped and not replaced), and the world the method leaves is the
  world \<open>G\<close> leaves, so nothing is done after it. A call of the codec posts at most one
  request and starts no timer; GetVersion and GetHealth as a whole (cache path or
  refresh path) post at most one request and start no timer.
\<close>

theorem one_codec_call_no_retry:
  "(let G = getResponse L (Unmarshal_int64 L) ctx c ''getBlockTime'' [Int64 slot]
              (zero_Response 0) w;
        M = GetBlockTime L ctx c slot w
    in snd (fst M) = fst (fst G) \<and> snd (snd M) = snd G) \<and>
   (let G = getResponse L (Unmarshal_EpochInfo L) ctx c ''getEpochInfo''
              [StringMap [(''commitment'', commitment)]] (zero_Response (zero_EpochInfo L)) w;
        M = GetEpochInfo L ctx c commitment w
    in snd (fst M) = fst (fst G) \<and> snd (snd M) = snd G) \<and>
   (let G = getResponse L (Unmarshal_int64 L) ctx c ''minimumLedgerSlot'' []
              (zero_Response 0) w;
        M = GetMinimumLedgerSlot L ctx c w
    in snd (fst M) = fst (fst G) \<and> snd (snd M) = snd G) \<and>
   (let G = getResponse L (Unmarshal_int64 L) ctx c ''getFirstAvailableBlock'' []
              (zero_Response 0) w;
        M = GetFirstAvailableBlock L ctx c w
    in snd (fst M) = fst (fst G) \<and> snd (snd M) = snd G) \<and>
   (let G = getResponse L (Unmarshal_Version L) ctx c ''getVersion'' []
              (zero_Response \<lparr>Version = []\<rparr>) w;
        M = GetVersion_refresh L ctx c w
    in snd (fst M) = fst (fst G) \<and> snd (snd M) = snd G) \<and>
   (let G = getResponse L (Unmarshal_string L) ctx c ''getHealth'' [] (zero_Response []) w;
        M = GetHealth_refresh L ctx c w
    in snd (fst M) = fst (fst G) \<and> snd (snd M) = snd G) \<and>
   length (posts (snd (getResponse L unmarshal ctx c method params rpcResponse w)))
     \<le> length (posts w) + 1 \<and>
   timers (snd (getResponse L unmarshal ctx c method params rpcResponse w)) = timers w \<and>
   length (posts (snd (snd (GetVersion L ctx c w)))) \<le> length (posts w) + 1 \<and>
   timers (snd (snd (GetVersion L ctx c w))) = timers w \<and>
   length (posts (snd (snd (GetHealth L ctx c w)))) \<le> length (posts w) + 1 \<and>
   timers (snd (snd (GetHealth L ctx c w))) = timers w"
proof -
  have 1: "(let G = getResponse L (Unmarshal_int64 L) ctx c ''getBlockTime'' [Int64 slot]
              (zero_Response 0) w;
        M = GetBlockTime L ctx c slot w
    in snd (fst M) = fst (fst G) \<and> snd (snd M) = snd G)"
    by (simp add: GetBlockTime_via Let_def)
  have 2: "(let G = getResponse L (Unmarshal_EpochInfo L) ctx c ''getEpochInfo''
              [StringMap [(''commitment'', commitment)]] (zero_Response (zero_EpochInfo L)) w;
        M = GetEpochInfo L ctx c commitment w
    in snd (fst M) = fst (fst G) \<and> snd (snd M) = snd G)"
    by (simp add: GetEpochInfo_via Let_def)
  have 3: "(let G = getResponse L (Unmarshal_int64 L) ctx c ''minimumLedgerSlot'' []
              (zero_Response 0) w;
        M = GetMinimumLedgerSlot L ctx c w
    in snd (fst M) = fst (fst G) \<and> snd (snd M) = snd G)"
    by (simp add: GetMinimumLedgerSlot_via Let_def)
  have 4: "(let G = getResponse L (Unmarshal_int64 L) ctx c ''getFirstAvailableBlock'' []
              (zero_Response 0) w;
        M = GetFirstAvailableBlock L ctx c w
    in snd (fst M) = fst (fst G) \<and> snd (snd M) = snd G)"
    by (simp add: GetFirstAvailableBlock_via Let_def)
  have 5: "(let G = getResponse L (Unmarshal_Version L) ctx c ''getVersion'' []
              (zero_Response \<lparr>Version = []\<rparr>) w;
        M = GetVersion_refresh L ctx c w
    in snd (fst M) = fst (fst G) \<and> snd (snd M) = snd G)"
    by (simp add: GetVersion_refresh_via Let_def)
  have 6: "(let G = getResponse L (Unmarshal_string L) ctx c ''getHealth'' []
              (zero_Response []) w;
        M = GetHealth_refresh L ctx c w
    in snd (fst M) = fst (fst G) \<and> snd (snd M) = snd G)"
    by (simp add: GetHealth_refresh_via Let_def)
  show ?thesis
    using 1 2 3 4 5 6 getResponse_posts_le [of L unmarshal ctx c "method" params rpcResponse w]
      getResponse_frame(1) [of L unmarshal ctx c "method" params rpcResponse w]
      GetVersion_effects(1,2) [of L ctx c w] GetHealth_effects(1,2) [of L ctx c w]
    by blast
qed

subsection \<open>The request on the wire\<close>

lemma getResponse_logged:
  "logger c \<Longrightarrow> Unencodable \<notin> set ps \<Longrightarrow>
   Debugf_request (RpcUrl c) (JSON \<lparr>Jsonrpc = ''2.0'', Id = 1, Method = m, Params = ps\<rparr>)
     \<in> set (logs (snd (getResponse L um ctx c m ps r0 w)))"
  by (simp add: getResponse_def Let_def json_Marshal_def log_def
        split: sum.splits option.splits exchange.splits prod.splits)

text \<open>
  Claim C6. A call of \<open>getResponse\<close> whose parameters can be encoded and whose HTTP
  request can be created posts to the client's URL the request with jsonrpc
  \<open>2.0\<close>, id 1, the method given and the parameters given, in their order (and, with a
  logger, logs that request even when it cannot be created). Each typed method posts the
  method name and parameters of the wire table: getBlockTime with the slot,
  getEpochInfo with the one map from \<open>commitment\<close> to the commitment given, and
  getVersion, getHealth, minimumLedgerSlot and getFirstAvailableBlock with no parameter.
\<close>

theorem request_envelope:
  "(Unencodable \<notin> set params \<longrightarrow> NewRequestWithContext L ctx (RpcUrl c) = None \<longrightarrow>
      posts (snd (getResponse L unmarshal ctx c method params rpcResponse w)) =
        posts w @ [(RpcUrl c,
                    JSON \<lparr>Jsonrpc = ''2.0'', Id = 1, Method = method, Params = params\<rparr>)]) \<and>
   (Unencodable \<notin> set params \<longrightarrow> logger c \<longrightarrow>
      Debugf_request (RpcUrl c)
          (JSON \<lparr>Jsonrpc = ''2.0'', Id = 1, Method = method, Params = params\<rparr>)
        \<in> set (logs (snd (getResponse L unmarshal ctx c method params rpcResponse w)))) \<and>
   (NewRequestWithContext L ctx (RpcUrl c) = None \<longrightarrow>
      posts (snd (snd (GetBlockTime L ctx c slot w))) =
        posts w @ [(RpcUrl c, JSON \<lparr>Jsonrpc = ''2.0'', Id = 1, Method = ''getBlockTime'',
                                    Params = [Int64 slot]\<rparr>)] \<and>
      posts (snd (snd (GetEpochInfo L ctx c commitment w))) =
        posts w @ [(RpcUrl c, JSON \<lparr>Jsonrpc = ''2.0'', Id = 1, Method = ''getEpochInfo'',
                                    Params = [StringMap [(''commitment'', commitment)]]\<rparr>)] \<and>
      posts (snd (snd (GetVersion_refresh L ctx c w))) =
        posts w @ [(RpcUrl c, JSON \<lparr>Jsonrpc = ''2.0'', Id = 1, Method = ''getVersion'',
                                    Params = []\<rparr>)] \<and>
      posts (snd (snd (GetHealth_refresh L ctx c w))) =
        posts w @ [(RpcUrl c, JSON \<lparr>Jsonrpc = ''2.0'', Id = 1, Method = ''getHealth'',
                                    Params = []\<rparr>)] \<and>
      posts (snd (snd (GetMinimumLedgerSlot L ctx c w))) =
        posts w @ [(RpcUrl c, JSON \<lparr>Jsonrpc = ''2.0'', Id = 1, Method = ''minimumLedgerSlot'',
                                    Params = []\<rparr>)] \<and>
      posts (snd (snd (GetFirstAvailableBlock L ctx c w))) =
        posts w @ [(RpcUrl c, JSON \<lparr>Jsonrpc = ''2.0'', Id = 1,
                                    Method = ''getFirstAvailableBlock'', Params = []\<rparr>)])"
proof -
  have typed: "posts (snd (snd (GetBlockTime L ctx c slot w))) =
        posts w @ [(RpcUrl c, JSON \<lparr>Jsonrpc = ''2.0'', Id = 1, Method = ''getBlockTime'',
                                    Params = [Int64 slot]\<rparr>)] \<and>
      posts (snd (snd (GetEpochInfo L ctx c commitment w))) =
        posts w @ [(RpcUrl c, JSON \<lparr>Jsonrpc = ''2.0'', Id = 1, Method = ''getEpochInfo'',
                                    Params = [StringMap [(''commitment'', commitment)]]\<rparr>)] \<and>
      posts (snd (snd (GetVersion_refresh L ctx c w))) =
        posts w @ [(RpcUrl c, JSON \<lparr>Jsonrpc = ''2.0'', Id = 1, Method = ''getVersion'',
                                    Params = []\<rparr>)] \<and>
      posts (snd (snd (GetHealth_refresh L ctx c w))) =
        posts w @ [(RpcUrl c, JSON \<lparr>Jsonrpc = ''2.0'', Id = 1, Method = ''getHealth'',
                                    Params = []\<rparr>)] \<and>
      posts (snd (snd (GetMinimumLedgerSlot L ctx c w))) =
        posts w @ [(RpcUrl c, JSON \<lparr>Jsonrpc = ''2.0'', Id = 1, Method = ''minimumLedgerSlot'',
                                    Params = []\<rparr>)] \<and>
      posts (snd (snd (GetFirstAvailableBlock L ctx c w))) =
        posts w @ [(RpcUrl c, JSON \<lparr>Jsonrpc = ''2.0'', Id = 1,
                                    Method = ''getFirstAvailableBlock'', Params = []\<rparr>)]"
    if "NewRequestWithContext L ctx (RpcUrl c) = None"
    using that
    by (simp add: GetBlockTime_via GetEpochInfo_via GetMinimumLedgerSlot_via
          GetFirstAvailableBlock_via GetVersion_refresh_world GetHealth_refresh_world
          Let_def getResponse_sent)
  show ?thesis
    using typed getResponse_sent [of params L ctx c unmarshal "method" rpcResponse w]
      getResponse_logged [of c params "method" L unmarshal ctx rpcResponse w]
    by blast
qed

theorem request_envelope_witness:
  "posts (snd (snd (GetBlockTime example_lib example_ctx example_client 9 example_down))) =
     [(''http://localhost:8899'',
       JSON \<lparr>Jsonrpc = ''2.0'', Id = 1, Method = ''getBlockTime'', Params = [Int64 9]\<rparr>)] \<and>
   posts (snd (snd (GetEpochInfo example_lib example_ctx example_client ''finalized''
                      example_down))) =
     [(''http://localhost:8899'',
       JSON \<lparr>Jsonrpc = ''2.0'', Id = 1, Method = ''getEpochInfo'',
             Params = [StringMap [(''commitment'', ''finalized'')]]\<rparr>)] \<and>
   posts (snd (getResponse example_lib (example_Unmarshal (\<lambda>b. b)) example_ctx example_client
                 ''getSlot'' [Int64 1, Int64 2] (zero_Response []) example_down)) =
     [(''http://localhost:8899'',
       JSON \<lparr>Jsonrpc = ''2.0'', Id = 1, Method = ''getSlot'', Params = [Int64 1, Int64 2]\<rparr>)]"
proof -
  have h: "NewRequestWithContext example_lib example_ctx (RpcUrl example_client) = None"
    by (simp add: example_facts)
  have e: "Unencodable \<notin> set [Int64 1, Int64 2]" by simp
  show ?thesis
    using request_envelope [of "[Int64 1, Int64 2]" example_lib example_ctx example_client
        "example_Unmarshal (\<lambda>b. b)" "''getSlot''" "zero_Response []" example_down 9
        "''finalized''"] h e
    by (simp add: example_client_facts example_down_facts)
qed

subsection \<open>A failed refresh leaves the cache as it was\<close>

lemma GetVersion_error:
  "snd (fst (GetVersion L ctx c w)) = Some e \<Longrightarrow>
   fst (snd (GetVersion L ctx c w)) = c \<and>
   fst (fst (getResponse L (Unmarshal_Version L) ctx c ''getVersion'' []
               (zero_Response \<lparr>Version = []\<rparr>) w)) = Some e"
  by (auto simp add: GetVersion_def GetVersion_refresh_via Let_def
        split: option.splits if_splits)

lemma GetHealth_error:
  "snd (fst (GetHealth L ctx c w)) = Some e \<Longrightarrow>
   fst (snd (GetHealth L ctx c w)) = c \<and>
   fst (fst (getResponse L (Unmarshal_string L) ctx c ''getHealth'' []
               (zero_Response []) w)) = Some e"
  by (auto simp add: GetHealth_def GetHealth_refresh_via Let_def
        split: option.splits if_splits)

lemma GetVersion_refresh_failed:
  "fst (fst (getResponse L (Unmarshal_Version L) ctx c ''getVersion'' []
               (zero_Response \<lparr>Version = []\<rparr>) w)) = Some e \<Longrightarrow>
   GetVersion_refresh L ctx c w =
     (([], Some e), c,
      snd (getResponse L (Unmarshal_Version L) ctx c ''getVersion'' []
             (zero_Response \<lparr>Version = []\<rparr>) w))"
  by (simp add: GetVersion_refresh_via Let_def)

lemma GetHealth_refresh_failed:
  "fst (fst (getResponse L (Unmarshal_string L) ctx c ''getHealth'' []
               (zero_Response []) w)) = Some e \<Longrightarrow>
   GetHealth_refresh L ctx c w =
     (([], Some e), c,
      snd (getResponse L (Unmarshal_string L) ctx c ''getHealth'' [] (zero_Response []) w))"
  by (simp add: GetHealth_refresh_via Let_def)

lemma example_cached_facts:
  "versionCache (example_cached t) = Some \<lparr>cvalue = ''1.17.0'', timestamp = t\<rparr>"
  "healthCache (example_cached t) = Some \<lparr>cvalue = ''ok'', timestamp = t\<rparr>"
  "cacheValidity (example_cached t) = 60 * Second"
  "RpcUrl (example_cached t) = ''http://localhost:8899''"
  "logger (example_cached t)"
  by (simp_all add: example_cached_def example_client_facts)

lemma sint_60_Second: "sint (60 * Second) = 60000000000"
  by (simp add: Second_def)

lemma example_down_getResponse':
  "Unencodable \<notin> set ps \<Longrightarrow>
   fst (getResponse example_lib um example_ctx (example_cached t) m ps r0 example_down) =
     (Some (Errorf (m @ '' RPC call failed: '') (Some (External ''connection refused''))), r0)"
  by (simp add: getResponse_def Let_def json_Marshal_def example_facts example_down_facts
        example_cached_facts)

text \<open>
  Claim C4. For GetVersion and for GetHealth: when the slot is empty or stale and the
  call of the codec returns an error \<open>e\<close>, the method returns the empty string with
  \<open>e\<close> itself, and the client after the call is the client before it, so the slot
  holds what it held (the same value and timestamp, or nothing). More generally, whenever
  either method returns an error, the client is unchanged.
\<close>

theorem failed_refresh_keeps_slot:
  "((\<forall>cv. versionCache c = Some cv \<longrightarrow>
           \<not> sint (time_Since w (timestamp cv)) < sint (cacheValidity c)) \<longrightarrow>
    fst (fst (getResponse L (Unmarshal_Version L) ctx c ''getVersion'' []
                (zero_Response \<lparr>Version = []\<rparr>) w)) = Some e \<longrightarrow>
    fst (GetVersion L ctx c w) = ([], Some e) \<and>
    fst (snd (GetVersion L ctx c w)) = c \<and>
    versionCache (fst (snd (GetVersion L ctx c w))) = versionCache c) \<and>
   ((\<forall>cv. healthCache c = Some cv \<longrightarrow>
           \<not> sint (time_Since w (timestamp cv)) < sint (cacheValidity c)) \<longrightarrow>
    fst (fst (getResponse L (Unmarshal_string L) ctx c ''getHealth'' []
                (zero_Response []) w)) = Some e' \<longrightarrow>
    fst (GetHealth L ctx c w) = ([], Some e') \<and>
    fst (snd (GetHealth L ctx c w)) = c \<and>
    healthCache (fst (snd (GetHealth L ctx c w))) = healthCache c) \<and>
   (snd (fst (GetVersion L ctx c w)) \<noteq> None \<longrightarrow> fst (snd (GetVersion L ctx c w)) = c) \<and>
   (snd (fst (GetHealth L ctx c w)) \<noteq> None \<longrightarrow> fst (snd (GetHealth L ctx c w)) = c)"
proof -
  have v: "fst (GetVersion L ctx c w) = ([], Some e) \<and>
      fst (snd (GetVersion L ctx c w)) = c \<and>
      versionCache (fst (snd (GetVersion L ctx c w))) = versionCache c"
    if "\<forall>cv. versionCache c = Some cv \<longrightarrow>
           \<not> sint (time_Since w (timestamp cv)) < sint (cacheValidity c)"
      and "fst (fst (getResponse L (Unmarshal_Version L) ctx c ''getVersion'' []
                (zero_Response \<lparr>Version = []\<rparr>) w)) = Some e"
    using that by (simp add: GetVersion_stale GetVersion_refresh_failed)
  have h: "fst (GetHealth L ctx c w) = ([], Some e') \<and>
      fst (snd (GetHealth L ctx c w)) = c \<and>
      healthCache (fst (snd (GetHealth L ctx c w))) = healthCache c"
    if "\<forall>cv. healthCache c = Some cv \<longrightarrow>
           \<not> sint (time_Since w (timestamp cv)) < sint (cacheValidity c)"
      and "fst (fst (getResponse L (Unmarshal_string L) ctx c ''getHealth'' []
                (zero_Response []) w)) = Some e'"
    using that by (simp add: GetHealth_stale GetHealth_refresh_failed)
  have v': "snd (fst (GetVersion L ctx c w)) \<noteq> None \<longrightarrow> fst (snd (GetVersion L ctx c w)) = c"
    using GetVersion_error [of L ctx c w] by auto
  have h': "snd (fst (GetHealth L ctx c w)) \<noteq> None \<longrightarrow> fst (snd (GetHealth L ctx c w)) = c"
    using GetHealth_error [of L ctx c w] by auto
  show ?thesis
    using v h v' h' by blast
qed

theorem failed_refresh_keeps_slot_witness:
  "fst (GetVersion example_lib example_ctx (example_cached (- 60000000000)) example_down) =
     ([], Some (Errorf ''getVersion RPC call failed: ''
                  (Some (External ''connection refused'')))) \<and>
   versionCache (fst (snd (GetVersion example_lib example_ctx
                             (example_cached (- 60000000000)) example_down))) =
     Some \<lparr>cvalue = ''1.17.0'', timestamp = - 60000000000\<rparr> \<and>
   fst (GetHealth example_lib example_ctx (example_cached (- 60000000000)) example_down) =
     ([], Some (Errorf ''getHealth RPC call failed: ''
                  (Some (External ''connection refused'')))) \<and>
   healthCache (fst (snd (GetHealth example_lib example_ctx
                            (example_cached (- 60000000000)) example_down))) =
     Some \<lparr>cvalue = ''ok'', timestamp = - 60000000000\<rparr> \<and>
   versionCache (fst (snd (GetVersion example_lib example_ctx example_client example_down))) =
     None"
proof -
  have el: "sint (time_Since example_down (- 60000000000)) = 60000000000"
    by (simp add: time_Since_def example_down_facts sint_Sub_exact)
  have s1: "\<forall>cv. versionCache (example_cached (- 60000000000)) = Some cv \<longrightarrow>
      \<not> sint (time_Since example_down (timestamp cv))
          < sint (cacheValidity (example_cached (- 60000000000)))"
    by (simp add: example_cached_facts el sint_60_Second)
  have s2: "\<forall>cv. healthCache (example_cached (- 60000000000)) = Some cv \<longrightarrow>
      \<not> sint (time_Since example_down (timestamp cv))
          < sint (cacheValidity (example_cached (- 60000000000)))"
    by (simp add: example_cached_facts el sint_60_Second)
  have g1: "fst (fst (getResponse example_lib (Unmarshal_Version example_lib) example_ctx
      (example_cached (- 60000000000)) ''getVersion'' [] (zero_Response \<lparr>Version = []\<rparr>)
      example_down)) =
      Some (Errorf ''getVersion RPC call failed: '' (Some (External ''connection refused'')))"
    by (simp add: example_down_getResponse')
  have g2: "fst (fst (getResponse example_lib (Unmarshal_string example_lib) example_ctx
      (example_cached (- 60000000000)) ''getHealth'' [] (zero_Response []) example_down)) =
      Some (Errorf ''getHealth RPC call failed: '' (Some (External ''connection refused'')))"
    by (simp add: example_down_getResponse')
  have e0: "snd (fst (GetVersion example_lib example_ctx example_client example_down)) \<noteq> None"
    by (simp add: GetVersion_def GetVersion_refresh_via Let_def example_down_getResponse
          example_client_facts)
  have A: "fst (GetVersion example_lib example_ctx (example_cached (- 60000000000))
                  example_down) =
      ([], Some (Errorf ''getVersion RPC call failed: ''
                   (Some (External ''connection refused'')))) \<and>
    versionCache (fst (snd (GetVersion example_lib example_ctx
                              (example_cached (- 60000000000)) example_down))) =
      versionCache (example_cached (- 60000000000)) \<and>
    fst (GetHealth example_lib example_ctx (example_cached (- 60000000000)) example_down) =
      ([], Some (Errorf ''getHealth RPC call failed: ''
                   (Some (External ''connection refused'')))) \<and>
    healthCache (fst (snd (GetHealth example_lib example_ctx
                             (example_cached (- 60000000000)) example_down))) =
      healthCache (example_cached (- 60000000000))"
    using failed_refresh_keeps_slot [of "example_cached (- 60000000000)" example_down
        example_lib example_ctx _ _] s1 s2 g1 g2
    by blast
  have B: "fst (snd (GetVersion example_lib example_ctx example_client example_down)) =
      example_client"
    using failed_refresh_keeps_slot [of example_client example_down example_lib example_ctx]
      e0 by blast
  show ?thesis
    using A B by (simp add: example_cached_facts example_client_facts)
qed

subsection \<open>The connection probe, unrolled\<close>

text \<open>
  With \<open>maxRetries = 3\<close> the loop makes at most three attempts, with a wait after the
  first and after the second.
\<close>

lemma TestConnection_unfold:
  "TestConnection L ctx c w =
     (case TestConnection_attempt L ctx 0 c w of
        (None, c1, w1) \<Rightarrow> (None, c1, w1)
      | (Some e1, c1, w1) \<Rightarrow>
          (case select_backoff (2 * Second) w1 of
             (CtxDone, v1) \<Rightarrow> (Some (Err ctx), c1, v1)
           | (TimerFired, v1) \<Rightarrow>
               (case TestConnection_attempt L ctx 1 c1 v1 of
                  (None, c2, w2) \<Rightarrow> (None, c2, w2)
                | (Some e2, c2, w2) \<Rightarrow>
                    (case select_backoff (4 * Second) w2 of
                       (CtxDone, v2) \<Rightarrow> (Some (Err ctx), c2, v2)
                     | (TimerFired, v2) \<Rightarrow>
                         (case TestConnection_attempt L ctx 2 c2 v2 of
                            (None, c3, w3) \<Rightarrow> (None, c3, w3)
                          | (Some e3, c3, w3) \<Rightarrow>
                              (Some (Errorf ''failed to connect after 3 attempts: '' (Some e3)),
                               c3, w3))))))"
proof -
  have fin: "\<And>d le c w. TestConnection_loop L ctx 3 d le c w =
      (Some (Errorf ''failed to connect after 3 attempts: '' le), c, w)"
    by (subst TestConnection_loop.simps)
       (simp add: maxRetries_def fmt_d_def decimal.simps digit_def)
  have l2: "\<And>d le c w. TestConnection_loop L ctx 2 d le c w =
      (case TestConnection_attempt L ctx 2 c w of
         (None, c3, w3) \<Rightarrow> (None, c3, w3)
       | (Some e3, c3, w3) \<Rightarrow>
           (Some (Errorf ''failed to connect after 3 attempts: '' (Some e3)), c3, w3))"
    by (subst TestConnection_loop.simps)
       (simp add: maxRetries_def fin split: prod.splits option.splits)
  have l1: "\<And>d le c w. TestConnection_loop L ctx 1 d le c w =
      (case TestConnection_attempt L ctx 1 c w of
         (None, c2, w2) \<Rightarrow> (None, c2, w2)
       | (Some e2, c2, w2) \<Rightarrow>
           (case select_backoff d w2 of
              (CtxDone, v2) \<Rightarrow> (Some (Err ctx), c2, v2)
            | (TimerFired, v2) \<Rightarrow> TestConnection_loop L ctx 2 (d * 2) (Some e2) c2 v2))"
    by (subst TestConnection_loop.simps)
       (simp add: maxRetries_def split: prod.splits option.splits select_case.splits)
  have l0: "\<And>d le c w. TestConnection_loop L ctx 0 d le c w =
      (case TestConnection_attempt L ctx 0 c w of
         (None, c1, w1) \<Rightarrow> (None, c1, w1)
       | (Some e1, c1, w1) \<Rightarrow>
           (case select_backoff d w1 of
              (CtxDone, v1) \<Rightarrow> (Some (Err ctx), c1, v1)
            | (TimerFired, v1) \<Rightarrow> TestConnection_loop L ctx 1 (d * 2) (Some e1) c1 v1))"
    by (subst TestConnection_loop.simps)
       (simp add: maxRetries_def split: prod.splits option.splits select_case.splits)
  have d: "Second * 2 = 2 * Second" "2 * Second * 2 = 4 * Second"
    by simp_all
  show ?thesis
    unfolding TestConnection_def l0 l1 l2 d ..
qed

lemma GetVersion_client:
  "\<exists>s. fst (snd (GetVersion L ctx c w)) = c\<lparr>versionCache := s\<rparr>"
proof (cases "fst (snd (GetVersion L ctx c w)) = c")
  case True
  then have "fst (snd (GetVersion L ctx c w)) = c\<lparr>versionCache := versionCache c\<rparr>" by simp
  then show ?thesis by blast
next
  case False
  then show ?thesis
    by (auto simp add: GetVersion_def GetVersion_refresh_via Let_def
          split: option.splits if_splits)
qed

lemma GetHealth_client:
  "\<exists>s. fst (snd (GetHealth L ctx c w)) = c\<lparr>healthCache := s\<rparr>"
proof (cases "fst (snd (GetHealth L ctx c w)) = c")
  case True
  then have "fst (snd (GetHealth L ctx c w)) = c\<lparr>healthCache := healthCache c\<rparr>" by simp
  then show ?thesis by blast
next
  case False
  then show ?thesis
    by (auto simp add: GetHealth_def GetHealth_refresh_via Let_def
          split: option.splits if_splits)
qed

lemma attempt_client:
  "fst (snd (TestConnection_attempt L ctx i c w)) = fst (snd (GetVersion L ctx c w))"
  by (simp add: TestConnection_attempt_def split: prod.splits option.splits)

lemma attempt_client_ex:
  "\<exists>s. fst (snd (TestConnection_attempt L ctx i (c\<lparr>versionCache := s0\<rparr>) w)) =
        c\<lparr>versionCache := s\<rparr>"
  using GetVersion_client [of L ctx "c\<lparr>versionCache := s0\<rparr>" w]
  by (auto simp add: attempt_client)

lemma TestConnection_client:
  "\<exists>s. fst (snd (TestConnection L ctx c w)) = c\<lparr>versionCache := s\<rparr>"
proof -
  obtain e1 c1 w1 where a1: "TestConnection_attempt L ctx 0 c w = (e1, c1, w1)"
    by (cases "TestConnection_attempt L ctx 0 c w") auto
  obtain s1 where c1: "c1 = c\<lparr>versionCache := s1\<rparr>"
    using attempt_client_ex [where L = L and ctx = ctx and i = 0 and c = c and ?s0.0 = "versionCache c" and w = w] a1 by auto
  obtain k1 v1 where b1: "select_backoff (2 * Second) w1 = (k1, v1)"
    by (cases "select_backoff (2 * Second) w1") auto
  obtain e2 c2 w2 where a2: "TestConnection_attempt L ctx 1 c1 v1 = (e2, c2, w2)"
    by (cases "TestConnection_attempt L ctx 1 c1 v1") auto
  obtain s2 where c2: "c2 = c\<lparr>versionCache := s2\<rparr>"
    using attempt_client_ex [where L = L and ctx = ctx and i = 1 and c = c and ?s0.0 = s1 and w = v1] a2 c1 by auto
  obtain k2 v2 where b2: "select_backoff (4 * Second) w2 = (k2, v2)"
    by (cases "select_backoff (4 * Second) w2") auto
  obtain e3 c3 w3 where a3: "TestConnection_attempt L ctx 2 c2 v2 = (e3, c3, w3)"
    by (cases "TestConnection_attempt L ctx 2 c2 v2") auto
  obtain s3 where c3: "c3 = c\<lparr>versionCache := s3\<rparr>"
    using attempt_client_ex [where L = L and ctx = ctx and i = 2 and c = c and ?s0.0 = s2 and w = v2] a3 c2 by auto
  have "fst (snd (TestConnection L ctx c w)) \<in> {c1, c2, c3}"
    by (simp add: TestConnection_unfold a1 b1 a2 b2 a3
          split: option.splits select_case.splits)
  then show ?thesis
    using c1 c2 c3 by auto
qed

lemma example_ok_Version:
  "getResponse example_lib (Unmarshal_Version example_lib) example_ctx example_client
     ''getVersion'' [] (zero_Response \<lparr>Version = []\<rparr>) (example_world ''1.18.0'') =
   ((None, \<lparr>Result = \<lparr>Version = ''1.18.0''\<rparr>, Error = zero_RPCError\<rparr>),
    (example_world ''1.18.0'')
      \<lparr>now := 7,
       posts := [(''http://localhost:8899'',
                  JSON \<lparr>Jsonrpc = ''2.0'', Id = 1, Method = ''getVersion'', Params = []\<rparr>)],
       logs := [Debugf_request ''http://localhost:8899''
                  (JSON \<lparr>Jsonrpc = ''2.0'', Id = 1, Method = ''getVersion'', Params = []\<rparr>),
                Debugw_completed ''getVersion'' 0,
                Debugf_response ''1.18.0'']\<rparr>)"
  by (simp add: getResponse_def Let_def json_Marshal_def example_facts example_client_facts
        example_lib_def example_Unmarshal_def zero_Response_def zero_RPCError_def log_def
        example_world_def time_Since_def Milliseconds_def sint_Sub_exact)

lemma example_ok_any:
  "fst (getResponse example_lib (Unmarshal_Version example_lib) example_ctx c ''getVersion''
          [] (zero_Response \<lparr>Version = []\<rparr>) (example_world ''1.18.0'')) =
     (None, \<lparr>Result = \<lparr>Version = ''1.18.0''\<rparr>, Error = zero_RPCError\<rparr>)"
  "now (snd (getResponse example_lib (Unmarshal_Version example_lib) example_ctx c
               ''getVersion'' [] (zero_Response \<lparr>Version = []\<rparr>)
               (example_world ''1.18.0''))) = 7"
  by (simp_all add: getResponse_def Let_def json_Marshal_def example_facts
        example_lib_def example_Unmarshal_def zero_Response_def zero_RPCError_def
        example_world_def)

subsection \<open>What a method may change in the client\<close>

text \<open>
  Claim C8. GetVersion leaves a client that differs from the one it was called on in
  the field \<open>versionCache\<close> at most, and GetHealth one that differs in \<open>healthCache\<close> at
  most: neither touches the other slot, nor \<open>RpcUrl\<close>, \<open>HttpTimeout\<close> or
  \<open>cacheValidity\<close>. TestConnection, which fetches the version, changes
  \<open>versionCache\<close> at most. GetBlockTime, GetEpochInfo, GetMinimumLedgerSlot and
  GetFirstAvailableBlock leave the client as it was.
\<close>

theorem cache_slots_frame:
  "fst (snd (GetVersion L ctx c w)) =
     c\<lparr>versionCache := versionCache (fst (snd (GetVersion L ctx c w)))\<rparr> \<and>
   fst (snd (GetHealth L ctx c w)) =
     c\<lparr>healthCache := healthCache (fst (snd (GetHealth L ctx c w)))\<rparr> \<and>
   fst (snd (TestConnection L ctx c w)) =
     c\<lparr>versionCache := versionCache (fst (snd (TestConnection L ctx c w)))\<rparr> \<and>
   fst (snd (GetBlockTime L ctx c slot w)) = c \<and>
   fst (snd (GetEpochInfo L ctx c commitment w)) = c \<and>
   fst (snd (GetMinimumLedgerSlot L ctx c w)) = c \<and>
   fst (snd (GetFirstAvailableBlock L ctx c w)) = c \<and>
   healthCache (fst (snd (GetVersion L ctx c w))) = healthCache c \<and>
   versionCache (fst (snd (GetHealth L ctx c w))) = versionCache c \<and>
   RpcUrl (fst (snd (GetVersion L ctx c w))) = RpcUrl c \<and>
   HttpTimeout (fst (snd (GetVersion L ctx c w))) = HttpTimeout c \<and>
   cacheValidity (fst (snd (GetVersion L ctx c w))) = cacheValidity c \<and>
   RpcUrl (fst (snd (GetHealth L ctx c w))) = RpcUrl c \<and>
   HttpTimeout (fst (snd (GetHealth L ctx c w))) = HttpTimeout c \<and>
   cacheValidity (fst (snd (GetHealth L ctx c w))) = cacheValidity c \<and>
   RpcUrl (fst (snd (TestConnection L ctx c w))) = RpcUrl c \<and>
   HttpTimeout (fst (snd (TestConnection L ctx c w))) = HttpTimeout c \<and>
   cacheValidity (fst (snd (TestConnection L ctx c w))) = cacheValidity c \<and>
   healthCache (fst (snd (TestConnection L ctx c w))) = healthCache c"
proof -
  obtain s1 where v: "fst (snd (GetVersion L ctx c w)) = c\<lparr>versionCache := s1\<rparr>"
    using GetVersion_client by blast
  obtain s2 where h: "fst (snd (GetHealth L ctx c w)) = c\<lparr>healthCache := s2\<rparr>"
    using GetHealth_client by blast
  obtain s3 where t: "fst (snd (TestConnection L ctx c w)) = c\<lparr>versionCache := s3\<rparr>"
    using TestConnection_client by blast
  have o: "fst (snd (GetBlockTime L ctx c slot w)) = c"
    "fst (snd (GetEpochInfo L ctx c commitment w)) = c"
    "fst (snd (GetMinimumLedgerSlot L ctx c w)) = c"
    "fst (snd (GetFirstAvailableBlock L ctx c w)) = c"
    by (simp_all add: GetBlockTime_via GetEpochInfo_via GetMinimumLedgerSlot_via
          GetFirstAvailableBlock_via Let_def)
  show ?thesis
    unfolding v h t o by simp
qed

theorem cache_slots_frame_witness:
  "fst (snd (GetVersion example_lib example_ctx example_client (example_world ''1.18.0''))) =
     example_client\<lparr>versionCache := Some \<lparr>cvalue = ''1.18.0'', timestamp = 7\<rparr>\<rparr> \<and>
   healthCache (fst (snd (GetVersion example_lib example_ctx example_client
                            (example_world ''1.18.0'')))) = None"
proof -
  have "versionCache (fst (snd (GetVersion example_lib example_ctx example_client
                                  (example_world ''1.18.0'')))) =
          Some \<lparr>cvalue = ''1.18.0'', timestamp = 7\<rparr>"
    by (simp add: GetVersion_def GetVersion_refresh_def example_client_facts
          example_ok_Version)
  then show ?thesis
    using cache_slots_frame [of example_lib example_ctx example_client
        "example_world ''1.18.0''" 0 "[]"]
    by (simp add: example_client_facts)
qed

subsection \<open>When the cache answers\<close>

lemma GetVersion_refresh_not_silent:
  "\<not> (snd (fst (GetVersion_refresh L ctx c w)) = None \<and>
      posts (snd (snd (GetVersion_refresh L ctx c w))) = posts w)"
  using getResponse_ok_posts [of L "Unmarshal_Version L" ctx c "''getVersion''" "[]"
      "zero_Response \<lparr>Version = []\<rparr>" w]
  by (auto simp add: GetVersion_refresh_via Let_def)

lemma GetHealth_refresh_not_silent:
  "\<not> (snd (fst (GetHealth_refresh L ctx c w)) = None \<and>
      posts (snd (snd (GetHealth_refresh L ctx c w))) = posts w)"
  using getResponse_ok_posts [of L "Unmarshal_string L" ctx c "''getHealth''" "[]"
      "zero_Response []" w]
  by (auto simp add: GetHealth_refresh_via Let_def)

lemma GetVersion_hit_iff:
  "(snd (fst (GetVersion L ctx c w)) = None \<and>
    posts (snd (snd (GetVersion L ctx c w))) = posts w) \<longleftrightarrow>
   (\<exists>cv. versionCache c = Some cv \<and>
         sint (time_Since w (timestamp cv)) < sint (cacheValidity c))"
proof (cases "\<exists>cv. versionCache c = Some cv \<and>
         sint (time_Since w (timestamp cv)) < sint (cacheValidity c)")
  case True
  then show ?thesis by (auto simp add: GetVersion_fresh)
next
  case False
  then have "GetVersion L ctx c w = GetVersion_refresh L ctx c w"
    by (intro GetVersion_stale) auto
  then show ?thesis
    using False GetVersion_refresh_not_silent [of L ctx c w] by metis
qed

lemma GetHealth_hit_iff:
  "(snd (fst (GetHealth L ctx c w)) = None \<and>
    posts (snd (snd (GetHealth L ctx c w))) = posts w) \<longleftrightarrow>
   (\<exists>cv. healthCache c = Some cv \<and>
         sint (time_Since w (timestamp cv)) < sint (cacheValidity c))"
proof (cases "\<exists>cv. healthCache c = Some cv \<and>
         sint (time_Since w (timestamp cv)) < sint (cacheValidity c)")
  case True
  then show ?thesis by (auto simp add: GetHealth_fresh)
next
  case False
  then have "GetHealth L ctx c w = GetHealth_refresh L ctx c w"
    by (intro GetHealth_stale) auto
  then show ?thesis
    using False GetHealth_refresh_not_silent [of L ctx c w] by metis
qed

lemma time_Since_at_ttl:
  "now w = t + sint ttl \<Longrightarrow> \<not> sint (time_Since w t) < sint (ttl :: Duration)"
  using Sub_at_ttl [of t ttl] by (simp add: time_Since_def)

lemma time_Since_60:
  "sint (time_Since w t) < sint (60 * Second) \<longleftrightarrow> now w - t < 60000000000"
proof -
  have "60 * Second \<noteq> minDuration"
    by (simp add: Second_def minDuration_def)
  then show ?thesis
    using Sub_less_iff [of "60 * Second" "now w" t]
    by (simp add: time_Since_def Second_def)
qed

text \<open>
  Claim C2. For GetVersion and for GetHealth: the method returns without error and
  without posting a request if and only if its slot is filled and the time since the
  slot's timestamp, as \<open>time.Since\<close> measures it, is less than the validity. In that
  case the value returned is the cached one and the client is unchanged. In the other
  case (the slot is empty, or its age is not less than the validity) the codec is called
  once: the error the method returns is the error of that call of \<open>getResponse\<close> and
  the world it leaves is the world that call leaves; when the call succeeds the method
  returns the value of the response and stores it with the clock's reading after the
  call; and when the request can be created exactly one request, for getVersion or
  getHealth, is posted. A read made exactly one validity after the timestamp is such a
  case: it posts the request. With the constructor's validity of 60 seconds, the cached
  value is returned exactly when the clock is less than 60000000000 ns past the timestamp.
\<close>

theorem cache_freshness:
  "((snd (fst (GetVersion L ctx c w)) = None \<and>
     posts (snd (snd (GetVersion L ctx c w))) = posts w) \<longleftrightarrow>
    (\<exists>cv. versionCache c = Some cv \<and>
          sint (time_Since w (timestamp cv)) < sint (cacheValidity c))) \<and>
   ((snd (fst (GetHealth L ctx c w)) = None \<and>
     posts (snd (snd (GetHealth L ctx c w))) = posts w) \<longleftrightarrow>
    (\<exists>cv. healthCache c = Some cv \<and>
          sint (time_Since w (timestamp cv)) < sint (cacheValidity c))) \<and>
   (\<forall>cv. versionCache c = Some cv \<longrightarrow>
      sint (time_Since w (timestamp cv)) < sint (cacheValidity c) \<longrightarrow>
      GetVersion L ctx c w = ((cvalue cv, None), c, log c Debug_version_cached w)) \<and>
   (\<forall>cv. healthCache c = Some cv \<longrightarrow>
      sint (time_Since w (timestamp cv)) < sint (cacheValidity c) \<longrightarrow>
      GetHealth L ctx c w = ((cvalue cv, None), c, log c Debug_health_cached w)) \<and>
   ((\<forall>cv. versionCache c = Some cv \<longrightarrow>
        \<not> sint (time_Since w (timestamp cv)) < sint (cacheValidity c)) \<longrightarrow>
    GetVersion L ctx c w = GetVersion_refresh L ctx c w) \<and>
   ((\<forall>cv. healthCache c = Some cv \<longrightarrow>
        \<not> sint (time_Since w (timestamp cv)) < sint (cacheValidity c)) \<longrightarrow>
    GetHealth L ctx c w = GetHealth_refresh L ctx c w) \<and>
   (snd (fst (GetVersion_refresh L ctx c w)) = None \<longrightarrow>
    posts (snd (snd (GetVersion_refresh L ctx c w))) =
      posts w @ [(RpcUrl c, JSON \<lparr>Jsonrpc = ''2.0'', Id = 1, Method = ''getVersion'',
                                  Params = []\<rparr>)]) \<and>
   (snd (fst (GetHealth_refresh L ctx c w)) = None \<longrightarrow>
    posts (snd (snd (GetHealth_refresh L ctx c w))) =
      posts w @ [(RpcUrl c, JSON \<lparr>Jsonrpc = ''2.0'', Id = 1, Method = ''getHealth'',
                                  Params = []\<rparr>)]) \<and>
   (\<forall>cv. versionCache c = Some cv \<longrightarrow> now w = timestamp cv + sint (cacheValidity c) \<longrightarrow>
      GetVersion L ctx c w = GetVersion_refresh L ctx c w) \<and>
   (\<forall>cv. healthCache c = Some cv \<longrightarrow> now w = timestamp cv + sint (cacheValidity c) \<longrightarrow>
      GetHealth L ctx c w = GetHealth_refresh L ctx c w) \<and>
   (cacheValidity c = 60 * Second \<longrightarrow>
      (\<forall>cv. versionCache c = Some cv \<longrightarrow>
         (GetVersion L ctx c w = ((cvalue cv, None), c, log c Debug_version_cached w)
            \<longleftrightarrow> now w - timestamp cv < 60000000000)) \<and>
      (\<forall>cv. healthCache c = Some cv \<longrightarrow>
         (GetHealth L ctx c w = ((cvalue cv, None), c, log c Debug_health_cached w)
            \<longleftrightarrow> now w - timestamp cv < 60000000000))) \<and>
   ((\<forall>cv. versionCache c = Some cv \<longrightarrow>
        \<not> sint (time_Since w (timestamp cv)) < sint (cacheValidity c)) \<longrightarrow>
    snd (fst (GetVersion L ctx c w)) = fst (fst (getResponse L (Unmarshal_Version L) ctx c ''getVersion'' []
          (zero_Response \<lparr>Version = []\<rparr>) w)) \<and>
    snd (snd (GetVersion L ctx c w)) = snd (getResponse L (Unmarshal_Version L) ctx c ''getVersion'' []
          (zero_Response \<lparr>Version = []\<rparr>) w) \<and>
    (fst (fst (getResponse L (Unmarshal_Version L) ctx c ''getVersion'' []
          (zero_Response \<lparr>Version = []\<rparr>) w)) = None \<longrightarrow>
     GetVersion L ctx c w =
       ((Version (Result (snd (fst (getResponse L (Unmarshal_Version L) ctx c ''getVersion'' []
          (zero_Response \<lparr>Version = []\<rparr>) w)))), None),
        c\<lparr>versionCache := Some \<lparr>cvalue = Version (Result (snd (fst (getResponse L (Unmarshal_Version L) ctx c ''getVersion'' []
          (zero_Response \<lparr>Version = []\<rparr>) w)))),
                              timestamp = now (snd (getResponse L (Unmarshal_Version L) ctx c ''getVersion'' []
          (zero_Response \<lparr>Version = []\<rparr>) w))\<rparr>\<rparr>,
        snd (getResponse L (Unmarshal_Version L) ctx c ''getVersion'' []
          (zero_Response \<lparr>Version = []\<rparr>) w)))) \<and>
   ((\<forall>cv. healthCache c = Some cv \<longrightarrow>
        \<not> sint (time_Since w (timestamp cv)) < sint (cacheValidity c)) \<longrightarrow>
    snd (fst (GetHealth L ctx c w)) = fst (fst (getResponse L (Unmarshal_string L) ctx c ''getHealth'' []
          (zero_Response []) w)) \<and>
    snd (snd (GetHealth L ctx c w)) = snd (getResponse L (Unmarshal_string L) ctx c ''getHealth'' []
          (zero_Response []) w) \<and>
    (fst (fst (getResponse L (Unmarshal_string L) ctx c ''getHealth'' []
          (zero_Response []) w)) = None \<longrightarrow>
     GetHealth L ctx c w =
       (((Result (snd (fst (getResponse L (Unmarshal_string L) ctx c ''getHealth'' []
          (zero_Response []) w)))), None),
        c\<lparr>healthCache := Some \<lparr>cvalue = (Result (snd (fst (getResponse L (Unmarshal_string L) ctx c ''getHealth'' []
          (zero_Response []) w)))),
                              timestamp = now (snd (getResponse L (Unmarshal_string L) ctx c ''getHealth'' []
          (zero_Response []) w))\<rparr>\<rparr>,
        snd (getResponse L (Unmarshal_string L) ctx c ''getHealth'' []
          (zero_Response []) w)))) \<and>
   ((\<forall>cv. versionCache c = Some cv \<longrightarrow>
        \<not> sint (time_Since w (timestamp cv)) < sint (cacheValidity c)) \<longrightarrow>
    NewRequestWithContext L ctx (RpcUrl c) = None \<longrightarrow>
    posts (snd (snd (GetVersion L ctx c w))) =
      posts w @ [(RpcUrl c, JSON \<lparr>Jsonrpc = ''2.0'', Id = 1, Method = ''getVersion'',
                                  Params = []\<rparr>)]) \<and>
   ((\<forall>cv. healthCache c = Some cv \<longrightarrow>
        \<not> sint (time_Since w (timestamp cv)) < sint (cacheValidity c)) \<longrightarrow>
    NewRequestWithContext L ctx (RpcUrl c) = None \<longrightarrow>
    posts (snd (snd (GetHealth L ctx c w))) =
      posts w @ [(RpcUrl c, JSON \<lparr>Jsonrpc = ''2.0'', Id = 1, Method = ''getHealth'',
                                  Params = []\<rparr>)]) \<and>
   (\<forall>cv. versionCache c = Some cv \<longrightarrow> now w = timestamp cv + sint (cacheValidity c) \<longrightarrow>
      NewRequestWithContext L ctx (RpcUrl c) = None \<longrightarrow>
      posts (snd (snd (GetVersion L ctx c w))) =
      posts w @ [(RpcUrl c, JSON \<lparr>Jsonrpc = ''2.0'', Id = 1, Method = ''getVersion'',
                                  Params = []\<rparr>)]) \<and>
   (\<forall>cv. healthCache c = Some cv \<longrightarrow> now w = timestamp cv + sint (cacheValidity c) \<longrightarrow>
      NewRequestWithContext L ctx (RpcUrl c) = None \<longrightarrow>
      posts (snd (snd (GetHealth L ctx c w))) =
      posts w @ [(RpcUrl c, JSON \<lparr>Jsonrpc = ''2.0'', Id = 1, Method = ''getHealth'',
                                  Params = []\<rparr>)])"
proof -
  have f1: "\<forall>cv. versionCache c = Some cv \<longrightarrow>
      sint (time_Since w (timestamp cv)) < sint (cacheValidity c) \<longrightarrow>
      GetVersion L ctx c w = ((cvalue cv, None), c, log c Debug_version_cached w)"
    by (simp add: GetVersion_fresh)
  have f2: "\<forall>cv. healthCache c = Some cv \<longrightarrow>
      sint (time_Since w (timestamp cv)) < sint (cacheValidity c) \<longrightarrow>
      GetHealth L ctx c w = ((cvalue cv, None), c, log c Debug_health_cached w)"
    by (simp add: GetHealth_fresh)
  have s1: "(\<forall>cv. versionCache c = Some cv \<longrightarrow>
        \<not> sint (time_Since w (timestamp cv)) < sint (cacheValidity c)) \<longrightarrow>
    GetVersion L ctx c w = GetVersion_refresh L ctx c w"
    using GetVersion_stale [of c w L ctx] by blast
  have s2: "(\<forall>cv. healthCache c = Some cv \<longrightarrow>
        \<not> sint (time_Since w (timestamp cv)) < sint (cacheValidity c)) \<longrightarrow>
    GetHealth L ctx c w = GetHealth_refresh L ctx c w"
    using GetHealth_stale [of c w L ctx] by blast
  have p1: "snd (fst (GetVersion_refresh L ctx c w)) = None \<longrightarrow>
    posts (snd (snd (GetVersion_refresh L ctx c w))) =
      posts w @ [(RpcUrl c, JSON \<lparr>Jsonrpc = ''2.0'', Id = 1, Method = ''getVersion'',
                                  Params = []\<rparr>)]"
    by (simp add: GetVersion_refresh_via Let_def getResponse_ok_posts)
  have p2: "snd (fst (GetHealth_refresh L ctx c w)) = None \<longrightarrow>
    posts (snd (snd (GetHealth_refresh L ctx c w))) =
      posts w @ [(RpcUrl c, JSON \<lparr>Jsonrpc = ''2.0'', Id = 1, Method = ''getHealth'',
                                  Params = []\<rparr>)]"
    by (simp add: GetHealth_refresh_via Let_def getResponse_ok_posts)
  have b1: "\<forall>cv. versionCache c = Some cv \<longrightarrow> now w = timestamp cv + sint (cacheValidity c) \<longrightarrow>
      GetVersion L ctx c w = GetVersion_refresh L ctx c w"
    using time_Since_at_ttl [of w _ "cacheValidity c"] by (simp add: GetVersion_def)
  have b2: "\<forall>cv. healthCache c = Some cv \<longrightarrow> now w = timestamp cv + sint (cacheValidity c) \<longrightarrow>
      GetHealth L ctx c w = GetHealth_refresh L ctx c w"
    using time_Since_at_ttl [of w _ "cacheValidity c"] by (simp add: GetHealth_def)
  have x1: "GetVersion L ctx c w = ((cvalue cv, None), c, log c Debug_version_cached w)
            \<longleftrightarrow> now w - timestamp cv < 60000000000"
    if "cacheValidity c = 60 * Second" and "versionCache c = Some cv" for cv
  proof (cases "now w - timestamp cv < 60000000000")
    case True
    then show ?thesis
      using that by (simp add: GetVersion_def time_Since_60)
  next
    case False
    then have st: "GetVersion L ctx c w = GetVersion_refresh L ctx c w"
      using that by (simp add: GetVersion_def time_Since_60)
    have "GetVersion_refresh L ctx c w \<noteq> ((cvalue cv, None), c, log c Debug_version_cached w)"
      using GetVersion_refresh_not_silent [of L ctx c w] by auto
    then show ?thesis using False st by simp
  qed
  have x2: "GetHealth L ctx c w = ((cvalue cv, None), c, log c Debug_health_cached w)
            \<longleftrightarrow> now w - timestamp cv < 60000000000"
    if "cacheValidity c = 60 * Second" and "healthCache c = Some cv" for cv
  proof (cases "now w - timestamp cv < 60000000000")
    case True
    then show ?thesis
      using that by (simp add: GetHealth_def time_Since_60)
  next
    case False
    then have st: "GetHealth L ctx c w = GetHealth_refresh L ctx c w"
      using that by (simp add: GetHealth_def time_Since_60)
    have "GetHealth_refresh L ctx c w \<noteq> ((cvalue cv, None), c, log c Debug_health_cached w)"
      using GetHealth_refresh_not_silent [of L ctx c w] by auto
    then show ?thesis using False st by simp
  qed
  have x: "cacheValidity c = 60 * Second \<longrightarrow>
      (\<forall>cv. versionCache c = Some cv \<longrightarrow>
         (GetVersion L ctx c w = ((cvalue cv, None), c, log c Debug_version_cached w)
            \<longleftrightarrow> now w - timestamp cv < 60000000000)) \<and>
      (\<forall>cv. healthCache c = Some cv \<longrightarrow>
         (GetHealth L ctx c w = ((cvalue cv, None), c, log c Debug_health_cached w)
            \<longleftrightarrow> now w - timestamp cv < 60000000000))"
    using x1 x2 by blast
  have rv: "GetVersion L ctx c w = GetVersion_refresh L ctx c w"
    if "\<forall>cv. versionCache c = Some cv \<longrightarrow>
        \<not> sint (time_Since w (timestamp cv)) < sint (cacheValidity c)"
    using that by (rule GetVersion_stale)
  have n1v: "(\<forall>cv. versionCache c = Some cv \<longrightarrow>
        \<not> sint (time_Since w (timestamp cv)) < sint (cacheValidity c)) \<longrightarrow>
    snd (fst (GetVersion L ctx c w)) = fst (fst (getResponse L (Unmarshal_Version L) ctx c ''getVersion'' []
          (zero_Response \<lparr>Version = []\<rparr>) w)) \<and>
    snd (snd (GetVersion L ctx c w)) = snd (getResponse L (Unmarshal_Version L) ctx c ''getVersion'' []
          (zero_Response \<lparr>Version = []\<rparr>) w) \<and>
    (fst (fst (getResponse L (Unmarshal_Version L) ctx c ''getVersion'' []
          (zero_Response \<lparr>Version = []\<rparr>) w)) = None \<longrightarrow>
     GetVersion L ctx c w =
       ((Version (Result (snd (fst (getResponse L (Unmarshal_Version L) ctx c ''getVersion'' []
          (zero_Response \<lparr>Version = []\<rparr>) w)))), None),
        c\<lparr>versionCache := Some \<lparr>cvalue = Version (Result (snd (fst (getResponse L (Unmarshal_Version L) ctx c ''getVersion'' []
          (zero_Response \<lparr>Version = []\<rparr>) w)))),
                              timestamp = now (snd (getResponse L (Unmarshal_Version L) ctx c ''getVersion'' []
          (zero_Response \<lparr>Version = []\<rparr>) w))\<rparr>\<rparr>,
        snd (getResponse L (Unmarshal_Version L) ctx c ''getVersion'' []
          (zero_Response \<lparr>Version = []\<rparr>) w)))"
    using rv by (simp add: GetVersion_refresh_via Let_def)
  have n3v: "(\<forall>cv. versionCache c = Some cv \<longrightarrow>
        \<not> sint (time_Since w (timestamp cv)) < sint (cacheValidity c)) \<longrightarrow>
    NewRequestWithContext L ctx (RpcUrl c) = None \<longrightarrow>
    posts (snd (snd (GetVersion L ctx c w))) =
      posts w @ [(RpcUrl c, JSON \<lparr>Jsonrpc = ''2.0'', Id = 1, Method = ''getVersion'',
                                  Params = []\<rparr>)]"
    using rv by (simp add: GetVersion_refresh_world getResponse_sent)
  have n4v: "\<forall>cv. versionCache c = Some cv \<longrightarrow> now w = timestamp cv + sint (cacheValidity c) \<longrightarrow>
      NewRequestWithContext L ctx (RpcUrl c) = None \<longrightarrow>
      posts (snd (snd (GetVersion L ctx c w))) =
      posts w @ [(RpcUrl c, JSON \<lparr>Jsonrpc = ''2.0'', Id = 1, Method = ''getVersion'',
                                  Params = []\<rparr>)]"
    using b1 by (simp add: GetVersion_refresh_world getResponse_sent)
  have rh: "GetHealth L ctx c w = GetHealth_refresh L ctx c w"
    if "\<forall>cv. healthCache c = Some cv \<longrightarrow>
        \<not> sint (time_Since w (timestamp cv)) < sint (cacheValidity c)"
    using that by (rule GetHealth_stale)
  have n1h: "(\<forall>cv. healthCache c = Some cv \<longrightarrow>
        \<not> sint (time_Since w (timestamp cv)) < sint (cacheValidity c)) \<longrightarrow>
    snd (fst (GetHealth L ctx c w)) = fst (fst (getResponse L (Unmarshal_string L) ctx c ''getHealth'' []
          (zero_Response []) w)) \<and>
    snd (snd (GetHealth L ctx c w)) = snd (getResponse L (Unmarshal_string L) ctx c ''getHealth'' []
          (zero_Response []) w) \<and>
    (fst (fst (getResponse L (Unmarshal_string L) ctx c ''getHealth'' []
          (zero_Response []) w)) = None \<longrightarrow>
     GetHealth L ctx c w =
       (((Result (snd (fst (getResponse L (Unmarshal_string L) ctx c ''getHealth'' []
          (zero_Response []) w)))), None),
        c\<lparr>healthCache := Some \<lparr>cvalue = (Result (snd (fst (getResponse L (Unmarshal_string L) ctx c ''getHealth'' []
          (zero_Response []) w)))),
                              timestamp = now (snd (getResponse L (Unmarshal_string L) ctx c ''getHealth'' []
          (zero_Response []) w))\<rparr>\<rparr>,
        snd (getResponse L (Unmarshal_string L) ctx c ''getHealth'' []
          (zero_Response []) w)))"
    using rh by (simp add: GetHealth_refresh_via Let_def)
  have n3h: "(\<forall>cv. healthCache c = Some cv \<longrightarrow>
        \<not> sint (time_Since w (timestamp cv)) < sint (cacheValidity c)) \<longrightarrow>
    NewRequestWithContext L ctx (RpcUrl c) = None \<longrightarrow>
    posts (snd (snd (GetHealth L ctx c w))) =
      posts w @ [(RpcUrl c, JSON \<lparr>Jsonrpc = ''2.0'', Id = 1, Method = ''getHealth'',
                                  Params = []\<rparr>)]"
    using rh by (simp add: GetHealth_refresh_world getResponse_sent)
  have n4h: "\<forall>cv. healthCache c = Some cv \<longrightarrow> now w = timestamp cv + sint (cacheValidity c) \<longrightarrow>
      NewRequestWithContext L ctx (RpcUrl c) = None \<longrightarrow>
      posts (snd (snd (GetHealth L ctx c w))) =
      posts w @ [(RpcUrl c, JSON \<lparr>Jsonrpc = ''2.0'', Id = 1, Method = ''getHealth'',
                                  Params = []\<rparr>)]"
    using b2 by (simp add: GetHealth_refresh_world getResponse_sent)
  note parts = GetVersion_hit_iff [of L ctx c w] GetHealth_hit_iff [of L ctx c w]
    f1 f2 s1 s2 p1 p2 b1 b2 x n1v n1h n3v n3h n4v n4h
  show ?thesis
    by (intro conjI) (rule parts)+
qed

theorem cache_freshness_witness:
  "GetVersion example_lib example_ctx (example_cached (- 59999999999)) example_down =
     ((''1.17.0'', None), example_cached (- 59999999999),
      log (example_cached (- 59999999999)) Debug_version_cached example_down) \<and>
   GetHealth example_lib example_ctx (example_cached (- 59999999999)) example_down =
     ((''ok'', None), example_cached (- 59999999999),
      log (example_cached (- 59999999999)) Debug_health_cached example_down) \<and>
   GetVersion example_lib example_ctx (example_cached (- 60000000000)) example_down =
     GetVersion_refresh example_lib example_ctx (example_cached (- 60000000000)) example_down \<and>
   GetHealth example_lib example_ctx (example_cached (- 60000000000)) example_down =
     GetHealth_refresh example_lib example_ctx (example_cached (- 60000000000)) example_down \<and>
   fst (GetVersion example_lib example_ctx (example_cached (- 60000000000)) example_down) =
     ([], Some (Errorf ''getVersion RPC call failed: ''
                  (Some (External ''connection refused'')))) \<and>
   posts (snd (snd (GetVersion example_lib example_ctx (example_cached (- 60000000000))
                      example_down))) =
     [(''http://localhost:8899'',
       JSON \<lparr>Jsonrpc = ''2.0'', Id = 1, Method = ''getVersion'', Params = []\<rparr>)] \<and>
   posts (snd (snd (GetHealth example_lib example_ctx (example_cached (- 60000000000))
                      example_down))) =
     [(''http://localhost:8899'',
       JSON \<lparr>Jsonrpc = ''2.0'', Id = 1, Method = ''getHealth'', Params = []\<rparr>)] \<and>
   fst (GetVersion example_lib example_ctx (example_cached (- 60000000000))
          (example_world ''1.18.0'')) = (''1.18.0'', None) \<and>
   versionCache (fst (snd (GetVersion example_lib example_ctx (example_cached (- 60000000000))
                             (example_world ''1.18.0'')))) =
     Some \<lparr>cvalue = ''1.18.0'', timestamp = 7\<rparr> \<and>
   posts (snd (snd (GetVersion example_lib example_ctx (example_cached (- 60000000000))
                      (example_world ''1.18.0'')))) =
     [(''http://localhost:8899'',
       JSON \<lparr>Jsonrpc = ''2.0'', Id = 1, Method = ''getVersion'', Params = []\<rparr>)] \<and>
   posts (snd (snd (GetVersion example_lib example_ctx (example_cached (- 59999999999))
                      (example_world ''1.18.0'')))) = []"
proof -
  let ?L = example_lib and ?x = example_ctx
  let ?f = "example_cached (- 59999999999)" and ?s = "example_cached (- 60000000000)"
  let ?o = "example_world ''1.18.0''"
  let ?rv = "(RpcUrl ?s, JSON \<lparr>Jsonrpc = ''2.0'', Id = 1, Method = ''getVersion'', Params = []\<rparr>)"
  let ?rh = "(RpcUrl ?s, JSON \<lparr>Jsonrpc = ''2.0'', Id = 1, Method = ''getHealth'', Params = []\<rparr>)"
  let ?G = "\<lambda>w. getResponse ?L (Unmarshal_Version ?L) ?x ?s ''getVersion'' []
                  (zero_Response \<lparr>Version = []\<rparr>) w"
  have n: "now example_down = 0" "now ?o = 0" "posts example_down = []" "posts ?o = []"
    by (simp_all add: example_down_facts example_world_def)
  have nr: "NewRequestWithContext ?L ?x (RpcUrl ?s) = None"
    by (simp add: example_facts)
  have fr: "sint (time_Since example_down (- 59999999999)) < sint (60 * Second)"
    "sint (time_Since ?o (- 59999999999)) < sint (60 * Second)"
    by (simp_all add: time_Since_60 n)
  have bd: "now example_down = - 60000000000 + sint (60 * Second)"
    by (simp add: n sint_60_Second)
  have el: "sint (time_Since example_down (- 60000000000)) = 60000000000"
    "sint (time_Since ?o (- 60000000000)) = 60000000000"
    by (simp_all add: time_Since_def n sint_Sub_exact)
  have sv: "\<forall>cv. versionCache ?s = Some cv \<longrightarrow>
      \<not> sint (time_Since example_down (timestamp cv)) < sint (cacheValidity ?s)"
    and sh: "\<forall>cv. healthCache ?s = Some cv \<longrightarrow>
      \<not> sint (time_Since example_down (timestamp cv)) < sint (cacheValidity ?s)"
    and so: "\<forall>cv. versionCache ?s = Some cv \<longrightarrow>
      \<not> sint (time_Since ?o (timestamp cv)) < sint (cacheValidity ?s)"
    by (simp_all add: example_cached_facts el sint_60_Second)
  have A: "GetVersion ?L ?x ?f example_down =
     ((''1.17.0'', None), ?f, log ?f Debug_version_cached example_down) \<and>
   GetHealth ?L ?x ?f example_down =
     ((''ok'', None), ?f, log ?f Debug_health_cached example_down)"
    using cache_freshness [of ?L ?x ?f example_down] fr(1)
    by (simp add: example_cached_facts)
  have A': "posts (snd (snd (GetVersion ?L ?x ?f ?o))) = []"
    using cache_freshness [of ?L ?x ?f ?o] fr(2) n(4)
    by (simp add: example_cached_facts)
  have B: "GetVersion ?L ?x ?s example_down = GetVersion_refresh ?L ?x ?s example_down \<and>
   GetHealth ?L ?x ?s example_down = GetHealth_refresh ?L ?x ?s example_down"
    using cache_freshness [of ?L ?x ?s example_down] bd
    by (simp add: example_cached_facts)
  have C1: "snd (fst (GetVersion ?L ?x ?s example_down)) = fst (fst (?G example_down))"
    using cache_freshness [of ?L ?x ?s example_down] sv by blast
  have C2: "posts (snd (snd (GetVersion ?L ?x ?s example_down))) = posts example_down @ [?rv]"
    using cache_freshness [of ?L ?x ?s example_down] sv nr by blast
  have C3: "posts (snd (snd (GetHealth ?L ?x ?s example_down))) = posts example_down @ [?rh]"
    using cache_freshness [of ?L ?x ?s example_down] sh nr by blast
  have ge: "fst (fst (?G example_down)) =
      Some (Errorf ''getVersion RPC call failed: '' (Some (External ''connection refused'')))"
    by (simp add: example_down_getResponse')
  have z: "fst (fst (GetVersion ?L ?x ?s example_down)) = []"
    using GetVersion_zero [of ?L ?x ?s example_down] C1 ge by simp
  have go: "fst (fst (?G ?o)) = None"
    by (simp add: example_ok_any)
  have D1: "GetVersion ?L ?x ?s ?o =
       ((Version (Result (snd (fst (?G ?o)))), None),
        ?s\<lparr>versionCache := Some \<lparr>cvalue = Version (Result (snd (fst (?G ?o)))),
                                  timestamp = now (snd (?G ?o))\<rparr>\<rparr>,
        snd (?G ?o))"
    using cache_freshness [of ?L ?x ?s ?o] so go by blast
  have D2: "posts (snd (snd (GetVersion ?L ?x ?s ?o))) = posts ?o @ [?rv]"
    using cache_freshness [of ?L ?x ?s ?o] so nr by blast
  have D: "fst (GetVersion ?L ?x ?s ?o) = (''1.18.0'', None) \<and>
      versionCache (fst (snd (GetVersion ?L ?x ?s ?o))) =
        Some \<lparr>cvalue = ''1.18.0'', timestamp = 7\<rparr>"
    by (simp add: D1 example_ok_any)
  show ?thesis
    using A A' B C1 C2 C3 ge z D D2 n
    by (simp add: example_cached_facts prod_eq_iff)
qed

subsection \<open>The connection probe\<close>

lemma attempt_err:
  "fst (TestConnection_attempt L ctx i c w) = snd (fst (GetVersion L ctx c w))"
  by (simp add: TestConnection_attempt_def split: prod.splits option.splits)

lemma attempt_frame:
  "timers (snd (snd (TestConnection_attempt L ctx i c w))) = timers w"
  "done_first (snd (snd (TestConnection_attempt L ctx i c w))) = done_first w"
  "length (posts (snd (snd (TestConnection_attempt L ctx i c w)))) \<le> length (posts w) + 1"
  using GetVersion_effects [of L ctx c w]
  by (auto simp add: TestConnection_attempt_def split: prod.splits option.splits)

lemma select_backoff_frame:
  "timers (snd (select_backoff d w)) = timers w @ [d]"
  "done_first (snd (select_backoff d w)) = done_first w"
  "http (snd (select_backoff d w)) = http w"
  "posts (snd (select_backoff d w)) = posts w"
  "logs (snd (select_backoff d w)) = logs w"
  by (simp_all add: select_backoff_def Let_def split: option.splits)

lemma select_backoff_CtxDone:
  "done_first w (length (timers w)) = Some dt \<Longrightarrow>
   select_backoff d w = (CtxDone, w\<lparr>timers := timers w @ [d], now := now w + int dt\<rparr>)"
  by (simp add: select_backoff_def Let_def)

lemma select_backoff_TimerFired:
  "done_first w (length (timers w)) = None \<Longrightarrow>
   select_backoff d w =
     (TimerFired, w\<lparr>timers := timers w @ [d], now := now w + max 0 (sint d)\<rparr>)"
  by (simp add: select_backoff_def Let_def)

lemma TestConnection_run:
  assumes "a1 = TestConnection_attempt L ctx 0 c w"
      and "s1 = select_backoff (2 * Second) (snd (snd a1))"
      and "a2 = TestConnection_attempt L ctx 1 (fst (snd a1)) (snd s1)"
      and "s2 = select_backoff (4 * Second) (snd (snd a2))"
      and "a3 = TestConnection_attempt L ctx 2 (fst (snd a2)) (snd s2)"
  shows "TestConnection L ctx c w =
     (if fst a1 = None then (None, snd a1)
      else if fst s1 = CtxDone then (Some (Err ctx), fst (snd a1), snd s1)
      else if fst a2 = None then (None, snd a2)
      else if fst s2 = CtxDone then (Some (Err ctx), fst (snd a2), snd s2)
      else if fst a3 = None then (None, snd a3)
      else (Some (Errorf ''failed to connect after 3 attempts: '' (fst a3)), snd a3))"
  unfolding TestConnection_unfold assms
  by (simp split: prod.splits option.splits select_case.splits)


lemma TestConnection_worlds:
  assumes "a1 = TestConnection_attempt L ctx 0 c w"
      and "s1 = select_backoff (2 * Second) (snd (snd a1))"
      and "a2 = TestConnection_attempt L ctx 1 (fst (snd a1)) (snd s1)"
      and "s2 = select_backoff (4 * Second) (snd (snd a2))"
      and "a3 = TestConnection_attempt L ctx 2 (fst (snd a2)) (snd s2)"
  shows "timers (snd (snd a1)) = timers w"
    and "timers (snd s1) = timers w @ [2 * Second]"
    and "timers (snd (snd a2)) = timers w @ [2 * Second]"
    and "timers (snd s2) = timers w @ [2 * Second, 4 * Second]"
    and "timers (snd (snd a3)) = timers w @ [2 * Second, 4 * Second]"
    and "done_first (snd (snd a1)) = done_first w"
    and "done_first (snd (snd a2)) = done_first w"
    and "length (posts (snd (snd a1))) \<le> length (posts w) + 1"
    and "posts (snd s1) = posts (snd (snd a1))"
    and "length (posts (snd (snd a2))) \<le> length (posts w) + 2"
    and "posts (snd s2) = posts (snd (snd a2))"
    and "length (posts (snd (snd a3))) \<le> length (posts w) + 3"
proof -
  show t1: "timers (snd (snd a1)) = timers w"
    by (simp add: assms(1) attempt_frame)
  show t1': "timers (snd s1) = timers w @ [2 * Second]"
    by (simp add: assms(2) select_backoff_frame t1)
  show t2: "timers (snd (snd a2)) = timers w @ [2 * Second]"
    by (simp add: assms(3) attempt_frame t1')
  show t2': "timers (snd s2) = timers w @ [2 * Second, 4 * Second]"
    by (simp add: assms(4) select_backoff_frame t2)
  show "timers (snd (snd a3)) = timers w @ [2 * Second, 4 * Second]"
    by (simp add: assms(5) attempt_frame t2')
  show d1: "done_first (snd (snd a1)) = done_first w"
    by (simp add: assms(1) attempt_frame)
  have d1': "done_first (snd s1) = done_first w"
    by (simp add: assms(2) select_backoff_frame d1)
  show "done_first (snd (snd a2)) = done_first w"
    by (simp add: assms(3) attempt_frame d1')
  show p1: "length (posts (snd (snd a1))) \<le> length (posts w) + 1"
    unfolding assms(1) by (rule attempt_frame)
  show p1': "posts (snd s1) = posts (snd (snd a1))"
    by (simp add: assms(2) select_backoff_frame)
  have "length (posts (snd (snd a2))) \<le> length (posts (snd s1)) + 1"
    unfolding assms(3) by (rule attempt_frame)
  then show p2: "length (posts (snd (snd a2))) \<le> length (posts w) + 2"
    using p1 p1' by simp
  show p2': "posts (snd s2) = posts (snd (snd a2))"
    by (simp add: assms(4) select_backoff_frame)
  have "length (posts (snd (snd a3))) \<le> length (posts (snd s2)) + 1"
    unfolding assms(5) by (rule attempt_frame)
  then show "length (posts (snd (snd a3))) \<le> length (posts w) + 3"
    using p2 p2' by simp
qed

lemma GetVersion_http: "http (snd (snd (GetVersion L ctx c w))) = http w"
  using GetVersion_world [of L ctx c w]
  by (auto simp add: GetVersion_refresh_world getResponse_frame)

lemma attempt_http: "http (snd (snd (TestConnection_attempt L ctx i c w))) = http w"
  using GetVersion_http [of L ctx c w]
  by (auto simp add: TestConnection_attempt_def split: prod.splits option.splits)

lemma getResponse_DoError:
  "Unencodable \<notin> set ps \<Longrightarrow> NewRequestWithContext L ctx (RpcUrl c) = None \<Longrightarrow>
   http w (length (posts w)) = DoError d e \<Longrightarrow>
   fst (fst (getResponse L um ctx c m ps r0 w)) = Some (Errorf (m @ '' RPC call failed: '') (Some e))"
  by (simp add: getResponse_def Let_def json_Marshal_def)

lemma down_attempt:
  assumes "\<forall>n. http w n = DoError d e" and "versionCache c = None"
      and "NewRequestWithContext L ctx (RpcUrl c) = None"
  shows "fst (TestConnection_attempt L ctx i c w) =
           Some (Errorf ''getVersion RPC call failed: '' (Some e))"
    and "fst (snd (TestConnection_attempt L ctx i c w)) = c"
proof -
  have g: "fst (fst (getResponse L (Unmarshal_Version L) ctx c ''getVersion'' []
                       (zero_Response \<lparr>Version = []\<rparr>) w)) =
             Some (Errorf ''getVersion RPC call failed: '' (Some e))"
    using assms getResponse_DoError [of "[]" L ctx c w d e "Unmarshal_Version L" "''getVersion''"]
    by simp
  have v: "GetVersion L ctx c w = GetVersion_refresh L ctx c w"
    using assms(2) by (simp add: GetVersion_def)
  show "fst (TestConnection_attempt L ctx i c w) =
           Some (Errorf ''getVersion RPC call failed: '' (Some e))"
    by (simp add: attempt_err v GetVersion_refresh_via Let_def g)
  show "fst (snd (TestConnection_attempt L ctx i c w)) = c"
    by (simp add: attempt_client v GetVersion_refresh_via Let_def g)
qed

lemma example_cancel_facts:
  "http (example_cancel k) n = DoError 5 (External ''connection refused'')"
  "timers (example_cancel k) = []"
  "done_first (example_cancel k) n = (if n = k then Some 1000 else None)"
  by (simp_all add: example_cancel_def example_down_facts)

lemma GetVersion_now: "now w \<le> now (snd (snd (GetVersion L ctx c w)))"
proof -
  have "now w \<le> now (snd (getResponse L (Unmarshal_Version L) ctx c ''getVersion'' []
                            (zero_Response \<lparr>Version = []\<rparr>) w))"
    by (simp add: getResponse_def Let_def
          split: sum.splits option.splits exchange.splits prod.splits)
  then show ?thesis
    using GetVersion_world [of L ctx c w] by (auto simp add: GetVersion_refresh_world)
qed

lemma GetVersion_failed:
  assumes "snd (fst (GetVersion L ctx c w)) = Some e"
  shows "fst (snd (GetVersion L ctx c w)) = c"
    and "NewRequestWithContext L ctx (RpcUrl c) = None \<Longrightarrow>
         posts (snd (snd (GetVersion L ctx c w))) =
           posts w @ [(RpcUrl c, JSON \<lparr>Jsonrpc = ''2.0'', Id = 1, Method = ''getVersion'',
                                       Params = []\<rparr>)]"
proof -
  show "fst (snd (GetVersion L ctx c w)) = c"
    using GetVersion_error [OF assms] by simp
  have r: "GetVersion L ctx c w = GetVersion_refresh L ctx c w"
    using assms by (auto simp add: GetVersion_def split: option.splits if_splits)
  show "posts (snd (snd (GetVersion L ctx c w))) =
           posts w @ [(RpcUrl c, JSON \<lparr>Jsonrpc = ''2.0'', Id = 1, Method = ''getVersion'',
                                       Params = []\<rparr>)]"
    if "NewRequestWithContext L ctx (RpcUrl c) = None"
    using that by (simp add: r GetVersion_refresh_world getResponse_sent)
qed

lemma attempt_failed:
  "snd (fst (GetVersion L ctx c w)) = Some e \<Longrightarrow>
   TestConnection_attempt L ctx i c w =
     (Some e, fst (snd (GetVersion L ctx c w)),
      log (fst (snd (GetVersion L ctx c w))) (Warnf_attempt (i + 1) 3 e)
        (snd (snd (GetVersion L ctx c w))))"
  by (cases "GetVersion L ctx c w") (auto simp add: TestConnection_attempt_def maxRetries_def)

lemma attempt_ok:
  "snd (fst (GetVersion L ctx c w)) = None \<Longrightarrow>
   TestConnection_attempt L ctx i c w = (None, snd (GetVersion L ctx c w))"
  by (cases "GetVersion L ctx c w") (auto simp add: TestConnection_attempt_def)

lemma sint_Seconds: "sint (2 * Second) = 2000000000" "sint (4 * Second) = 4000000000"
  by (simp_all add: Second_def)

lemma wait_fired:
  assumes "done_first w (length (timers w)) = None"
      and "g = GetVersion L ctx c w" and "snd (fst g) = Some e"
  shows "select_backoff d (log (fst (snd g)) (Warnf_attempt k 3 e) (snd (snd g))) =
     (TimerFired,
      (log (fst (snd g)) (Warnf_attempt k 3 e) (snd (snd g)))
        \<lparr>timers := timers w @ [d], now := now (snd (snd g)) + max 0 (sint d)\<rparr>)"
  using assms(1) GetVersion_effects(2,3) [of L ctx c w]
  by (simp add: select_backoff_def Let_def assms(2))

lemma getResponse_warns:
  "filter (\<lambda>x. \<exists>i n e. x = Warnf_attempt i n e) (logs (snd (getResponse L um ctx c m ps r0 w))) =
   filter (\<lambda>x. \<exists>i n e. x = Warnf_attempt i n e) (logs w)"
  by (simp add: getResponse_def Let_def log_def
        split: sum.splits option.splits exchange.splits prod.splits)

lemma GetVersion_warns:
  "filter (\<lambda>x. \<exists>i n e. x = Warnf_attempt i n e) (logs (snd (snd (GetVersion L ctx c w)))) =
   filter (\<lambda>x. \<exists>i n e. x = Warnf_attempt i n e) (logs w)"
  using GetVersion_world [of L ctx c w]
  by (auto simp add: GetVersion_refresh_world getResponse_warns log_def)

lemma down_GetVersion:
  assumes "\<forall>n. http w n = DoError d e" and "versionCache c = None"
      and "NewRequestWithContext L ctx (RpcUrl c) = None"
  shows "snd (fst (GetVersion L ctx c w)) =
           Some (Errorf ''getVersion RPC call failed: '' (Some e))"
    and "now (snd (snd (GetVersion L ctx c w))) = now w + int d"
  using assms
  by (simp_all add: GetVersion_def GetVersion_refresh_via Let_def getResponse_def
        json_Marshal_def)

text \<open>
  Claim C3. A run of TestConnection on the client \<open>c\<close> in the world \<open>w\<close> is named by
  its version fetches: \<open>g1\<close> is GetVersion in \<open>w\<close>; \<open>v1\<close> is the world that fetch
  leaves, with the warning for attempt 1 of 3 logged, the timer of 2 seconds started and
  the clock 2000000000 ns later; \<open>g2\<close> is GetVersion in \<open>v1\<close>; \<open>v2\<close> is the world
  that fetch leaves, with the warning for attempt 2 of 3, the timer of 4 seconds and the
  clock 4000000000 ns later; \<open>g3\<close> is GetVersion in \<open>v2\<close>. If the three fetches
  return the errors \<open>e1\<close>, \<open>e2\<close>, \<open>e3\<close> and the context is done in neither wait,
  TestConnection returns the error \<open>failed to connect after 3 attempts\<close> wrapping
  \<open>e3\<close>, with the client as it was, in the world the third fetch leaves plus the
  warning for attempt 3 of 3: no wait follows the third attempt. In that world exactly two
  timers were started, of 2 seconds and then 4 seconds; the clock is at least
  6000000000 ns past its reading in \<open>w\<close>; when the request can be created exactly three
  getVersion requests were posted (and never more than three); and, with a logger, the
  warnings added are those of attempts 1, 2 and 3, in this order. If the first, the second
  or the third fetch returns no error, TestConnection returns nil in the state that fetch
  leaves, with no timer, the timer of 2 seconds, or the timers of 2 and 4 seconds started.
\<close>

theorem probe_backoff:
  assumes "g1 = GetVersion L ctx c w"
      and "v1 = (log (fst (snd g1)) (Warnf_attempt 1 3 e1) (snd (snd g1)))
                  \<lparr>timers := timers w @ [2 * Second],
                   now := now (snd (snd g1)) + 2000000000\<rparr>"
      and "g2 = GetVersion L ctx (fst (snd g1)) v1"
      and "v2 = (log (fst (snd g2)) (Warnf_attempt 2 3 e2) (snd (snd g2)))
                  \<lparr>timers := timers w @ [2 * Second, 4 * Second],
                   now := now (snd (snd g2)) + 4000000000\<rparr>"
      and "g3 = GetVersion L ctx (fst (snd g2)) v2"
      and "req = (RpcUrl c, JSON \<lparr>Jsonrpc = ''2.0'', Id = 1, Method = ''getVersion'',
                                   Params = []\<rparr>)"
  shows "(snd (fst g1) = Some e1 \<and> snd (fst g2) = Some e2 \<and> snd (fst g3) = Some e3 \<and>
          done_first w (length (timers w)) = None \<and>
          done_first w (Suc (length (timers w))) = None \<longrightarrow>
            TestConnection L ctx c w =
              (Some (Errorf ''failed to connect after 3 attempts: '' (Some e3)), c,
               log c (Warnf_attempt 3 3 e3) (snd (snd g3))) \<and>
            fst (snd g1) = c \<and> fst (snd g2) = c \<and> fst (snd g3) = c \<and>
            timers (snd (snd (TestConnection L ctx c w))) =
              timers w @ [2 * Second, 4 * Second] \<and>
            now w + 6000000000 \<le> now (snd (snd (TestConnection L ctx c w))) \<and>
            length (posts (snd (snd (TestConnection L ctx c w)))) \<le> length (posts w) + 3 \<and>
            (NewRequestWithContext L ctx (RpcUrl c) = None \<longrightarrow>
               posts (snd (snd (TestConnection L ctx c w))) = posts w @ [req, req, req]) \<and>
            (logger c \<longrightarrow>
               filter (\<lambda>x. \<exists>i n e. x = Warnf_attempt i n e)
                 (logs (snd (snd (TestConnection L ctx c w)))) =
               filter (\<lambda>x. \<exists>i n e. x = Warnf_attempt i n e) (logs w) @
               [Warnf_attempt 1 3 e1, Warnf_attempt 2 3 e2, Warnf_attempt 3 3 e3])) \<and>
         (snd (fst g1) = None \<longrightarrow>
            TestConnection L ctx c w = (None, snd g1) \<and>
            timers (snd (snd (TestConnection L ctx c w))) = timers w \<and>
            length (posts (snd (snd (TestConnection L ctx c w)))) \<le> length (posts w) + 1) \<and>
         (snd (fst g1) = Some e1 \<and> done_first w (length (timers w)) = None \<and>
          snd (fst g2) = None \<longrightarrow>
            TestConnection L ctx c w = (None, snd g2) \<and>
            timers (snd (snd (TestConnection L ctx c w))) = timers w @ [2 * Second]) \<and>
         (snd (fst g1) = Some e1 \<and> snd (fst g2) = Some e2 \<and> snd (fst g3) = None \<and>
          done_first w (length (timers w)) = None \<and>
          done_first w (Suc (length (timers w))) = None \<longrightarrow>
            TestConnection L ctx c w = (None, snd g3) \<and>
            timers (snd (snd (TestConnection L ctx c w))) =
              timers w @ [2 * Second, 4 * Second])"
proof -
  let ?P = "\<lambda>x. \<exists>i n e. x = Warnf_attempt i n e"
  have B: "snd (fst g1) = None \<longrightarrow>
            TestConnection L ctx c w = (None, snd g1) \<and>
            timers (snd (snd (TestConnection L ctx c w))) = timers w \<and>
            length (posts (snd (snd (TestConnection L ctx c w)))) \<le> length (posts w) + 1"
    using GetVersion_effects(1,2) [of L ctx c w]
    by (simp add: TestConnection_unfold attempt_ok assms(1))
  have C: "TestConnection L ctx c w = (None, snd g2) \<and>
            timers (snd (snd (TestConnection L ctx c w))) = timers w @ [2 * Second]"
    if h: "snd (fst g1) = Some e1" "done_first w (length (timers w)) = None"
      "snd (fst g2) = None"
  proof -
    have c1: "fst (snd g1) = c"
      using GetVersion_failed(1) h(1) assms(1) by simp
    have a1: "TestConnection_attempt L ctx 0 c w =
        (Some e1, c, log c (Warnf_attempt 1 3 e1) (snd (snd g1)))"
      using attempt_failed [of L ctx c w e1 0] h(1) c1 by (simp add: assms(1))
    have s1: "select_backoff (2 * Second) (log c (Warnf_attempt 1 3 e1) (snd (snd g1))) =
        (TimerFired, v1)"
      using wait_fired [OF h(2) assms(1) h(1), of "2 * Second" 1] c1
      by (simp add: assms(2) sint_Seconds)
    have a2: "TestConnection_attempt L ctx 1 c v1 = (None, snd g2)"
      using attempt_ok [of L ctx c v1 1] h(3) c1 by (simp add: assms(3))
    have t: "timers (snd (snd g2)) = timers w @ [2 * Second]"
      using GetVersion_effects(2) [of L ctx c v1] c1 by (simp add: assms(3) assms(2))
    show ?thesis
      using t by (simp add: TestConnection_unfold a1 s1 a2 prod_eq_iff)
  qed
  have run: "fst (snd g1) = c" "fst (snd g2) = c"
      "TestConnection_attempt L ctx 0 c w =
        (Some e1, c, log c (Warnf_attempt 1 3 e1) (snd (snd g1)))"
      "select_backoff (2 * Second) (log c (Warnf_attempt 1 3 e1) (snd (snd g1))) =
        (TimerFired, v1)"
      "TestConnection_attempt L ctx 1 c v1 =
        (Some e2, c, log c (Warnf_attempt 2 3 e2) (snd (snd g2)))"
      "select_backoff (4 * Second) (log c (Warnf_attempt 2 3 e2) (snd (snd g2))) =
        (TimerFired, v2)"
      "g2 = GetVersion L ctx c v1" "g3 = GetVersion L ctx c v2"
    if h: "snd (fst g1) = Some e1" "snd (fst g2) = Some e2"
      "done_first w (length (timers w)) = None"
      "done_first w (Suc (length (timers w))) = None"
  proof -
    have c1: "fst (snd g1) = c"
      using GetVersion_failed(1) h(1) assms(1) by simp
    have g2': "g2 = GetVersion L ctx c v1"
      by (simp add: assms(3) c1)
    have c2: "fst (snd g2) = c"
      using GetVersion_failed(1) h(2) g2' by simp
    have g3': "g3 = GetVersion L ctx c v2"
      by (simp add: assms(5) c2)
    have a1: "TestConnection_attempt L ctx 0 c w =
        (Some e1, c, log c (Warnf_attempt 1 3 e1) (snd (snd g1)))"
      using attempt_failed [of L ctx c w e1 0] h(1) c1 by (simp add: assms(1))
    have s1: "select_backoff (2 * Second) (log c (Warnf_attempt 1 3 e1) (snd (snd g1))) =
        (TimerFired, v1)"
      using wait_fired [OF h(3) assms(1) h(1), of "2 * Second" 1] c1
      by (simp add: assms(2) sint_Seconds)
    have a2: "TestConnection_attempt L ctx 1 c v1 =
        (Some e2, c, log c (Warnf_attempt 2 3 e2) (snd (snd g2)))"
      using attempt_failed [of L ctx c v1 e2 1] h(2) c2 by (simp add: g2')
    have d2: "done_first v1 (length (timers v1)) = None"
      using h(4) GetVersion_effects(3) [of L ctx c w] c1
      by (simp add: assms(2) assms(1))
    have s2: "select_backoff (4 * Second) (log c (Warnf_attempt 2 3 e2) (snd (snd g2))) =
        (TimerFired, v2)"
      using wait_fired [OF d2 g2' h(2), of "4 * Second" 2] c2
      by (simp add: assms(4) assms(2) sint_Seconds)
    show "fst (snd g1) = c" "fst (snd g2) = c"
      "TestConnection_attempt L ctx 0 c w =
        (Some e1, c, log c (Warnf_attempt 1 3 e1) (snd (snd g1)))"
      "select_backoff (2 * Second) (log c (Warnf_attempt 1 3 e1) (snd (snd g1))) =
        (TimerFired, v1)"
      "TestConnection_attempt L ctx 1 c v1 =
        (Some e2, c, log c (Warnf_attempt 2 3 e2) (snd (snd g2)))"
      "select_backoff (4 * Second) (log c (Warnf_attempt 2 3 e2) (snd (snd g2))) =
        (TimerFired, v2)"
      "g2 = GetVersion L ctx c v1" "g3 = GetVersion L ctx c v2"
      by (fact c1 c2 a1 s1 a2 s2 g2' g3')+
  qed
  have D: "TestConnection L ctx c w = (None, snd g3) \<and>
            timers (snd (snd (TestConnection L ctx c w))) =
              timers w @ [2 * Second, 4 * Second]"
    if h: "snd (fst g1) = Some e1" "snd (fst g2) = Some e2" "snd (fst g3) = None"
      "done_first w (length (timers w)) = None"
      "done_first w (Suc (length (timers w))) = None"
  proof -
    note r = run [OF h(1) h(2) h(4) h(5)]
    have a3: "TestConnection_attempt L ctx 2 c v2 = (None, snd g3)"
      using attempt_ok [of L ctx c v2 2] h(3) by (simp add: r(8))
    have t: "timers (snd (snd g3)) = timers w @ [2 * Second, 4 * Second]"
      using GetVersion_effects(2) [of L ctx c v2] by (simp add: r(8) assms(4))
    show ?thesis
      using t by (simp add: TestConnection_unfold r(3) r(4) r(5) r(6) a3)
  qed
  have A: "TestConnection L ctx c w =
              (Some (Errorf ''failed to connect after 3 attempts: '' (Some e3)), c,
               log c (Warnf_attempt 3 3 e3) (snd (snd g3))) \<and>
            fst (snd g1) = c \<and> fst (snd g2) = c \<and> fst (snd g3) = c \<and>
            timers (snd (snd (TestConnection L ctx c w))) =
              timers w @ [2 * Second, 4 * Second] \<and>
            now w + 6000000000 \<le> now (snd (snd (TestConnection L ctx c w))) \<and>
            length (posts (snd (snd (TestConnection L ctx c w)))) \<le> length (posts w) + 3 \<and>
            (NewRequestWithContext L ctx (RpcUrl c) = None \<longrightarrow>
               posts (snd (snd (TestConnection L ctx c w))) = posts w @ [req, req, req]) \<and>
            (logger c \<longrightarrow>
               filter ?P (logs (snd (snd (TestConnection L ctx c w)))) =
               filter ?P (logs w) @
               [Warnf_attempt 1 3 e1, Warnf_attempt 2 3 e2, Warnf_attempt 3 3 e3])"
    if h: "snd (fst g1) = Some e1" "snd (fst g2) = Some e2" "snd (fst g3) = Some e3"
      "done_first w (length (timers w)) = None"
      "done_first w (Suc (length (timers w))) = None"
  proof -
    note r = run [OF h(1) h(2) h(4) h(5)]
    have g1': "g1 = GetVersion L ctx c w" by (rule assms(1))
    have g2': "g2 = GetVersion L ctx c v1" by (rule r(7))
    have g3': "g3 = GetVersion L ctx c v2" by (rule r(8))
    have c3: "fst (snd g3) = c"
      using GetVersion_failed(1) h(3) g3' by simp
    have a3: "TestConnection_attempt L ctx 2 c v2 =
        (Some e3, c, log c (Warnf_attempt 3 3 e3) (snd (snd g3)))"
      using attempt_failed [of L ctx c v2 e3 2] h(3) c3 by (simp add: g3')
    have T: "TestConnection L ctx c w =
              (Some (Errorf ''failed to connect after 3 attempts: '' (Some e3)), c,
               log c (Warnf_attempt 3 3 e3) (snd (snd g3)))"
      by (simp add: TestConnection_unfold r(3) r(4) r(5) r(6) a3)
    have t: "timers (snd (snd g3)) = timers w @ [2 * Second, 4 * Second]"
      using GetVersion_effects(2) [of L ctx c v2] by (simp add: g3' assms(4))
    have n1: "now w \<le> now (snd (snd g1))"
      unfolding g1' by (rule GetVersion_now)
    have n2: "now v1 \<le> now (snd (snd g2))"
      unfolding g2' by (rule GetVersion_now)
    have n3: "now v2 \<le> now (snd (snd g3))"
      unfolding g3' by (rule GetVersion_now)
    have nv1: "now v1 = now (snd (snd g1)) + 2000000000"
      by (simp add: assms(2))
    have nv2: "now v2 = now (snd (snd g2)) + 4000000000"
      by (simp add: assms(4))
    have n: "now w + 6000000000 \<le> now (snd (snd g3))"
      using n1 n2 n3 nv1 nv2 by linarith
    have p1: "length (posts (snd (snd g1))) \<le> length (posts w) + 1"
      unfolding g1' by (rule GetVersion_effects)
    have p2: "length (posts (snd (snd g2))) \<le> length (posts v1) + 1"
      unfolding g2' by (rule GetVersion_effects)
    have p3: "length (posts (snd (snd g3))) \<le> length (posts v2) + 1"
      unfolding g3' by (rule GetVersion_effects)
    have pv1: "posts v1 = posts (snd (snd g1))"
      by (simp add: assms(2))
    have pv2: "posts v2 = posts (snd (snd g2))"
      by (simp add: assms(4))
    have p: "length (posts (snd (snd g3))) \<le> length (posts w) + 3"
      using p1 p2 p3 pv1 pv2 by simp
    have px: "posts (snd (snd g3)) = posts w @ [req, req, req]"
      if nr: "NewRequestWithContext L ctx (RpcUrl c) = None"
    proof -
      have "posts (snd (snd g1)) = posts w @ [req]"
        using GetVersion_failed(2) [of L ctx c w e1] h(1) nr by (simp add: g1' assms(6))
      moreover have "posts (snd (snd g2)) = posts v1 @ [req]"
        using GetVersion_failed(2) [of L ctx c v1 e2] h(2) nr by (simp add: g2' assms(6))
      moreover have "posts (snd (snd g3)) = posts v2 @ [req]"
        using GetVersion_failed(2) [of L ctx c v2 e3] h(3) nr by (simp add: g3' assms(6))
      ultimately show ?thesis
        using pv1 pv2 by simp
    qed
    have lg: "filter ?P (logs (snd (snd g3))) @ [Warnf_attempt 3 3 e3] =
               filter ?P (logs w) @
               [Warnf_attempt 1 3 e1, Warnf_attempt 2 3 e2, Warnf_attempt 3 3 e3]"
      if lc: "logger c"
    proof -
      have "filter ?P (logs (snd (snd g1))) = filter ?P (logs w)"
        unfolding g1' by (rule GetVersion_warns)
      moreover have "filter ?P (logs (snd (snd g2))) = filter ?P (logs v1)"
        unfolding g2' by (rule GetVersion_warns)
      moreover have "filter ?P (logs (snd (snd g3))) = filter ?P (logs v2)"
        unfolding g3' by (rule GetVersion_warns)
      moreover have "logs v1 = logs (snd (snd g1)) @ [Warnf_attempt 1 3 e1]"
        using lc r(1) by (simp add: assms(2) log_def)
      moreover have "logs v2 = logs (snd (snd g2)) @ [Warnf_attempt 2 3 e2]"
        using lc r(2) by (simp add: assms(4) log_def)
      ultimately show ?thesis
        by simp
    qed
    have L3: "logger c \<longrightarrow>
               filter ?P (logs (snd (snd (TestConnection L ctx c w)))) =
               filter ?P (logs w) @
               [Warnf_attempt 1 3 e1, Warnf_attempt 2 3 e2, Warnf_attempt 3 3 e3]"
      using lg by (simp add: T log_def)
    show ?thesis
      using r(1) r(2) c3 t n p px L3 by (simp add: T)
  qed
  have A': "snd (fst g1) = Some e1 \<and> snd (fst g2) = Some e2 \<and> snd (fst g3) = Some e3 \<and>
          done_first w (length (timers w)) = None \<and>
          done_first w (Suc (length (timers w))) = None \<longrightarrow>
            TestConnection L ctx c w =
              (Some (Errorf ''failed to connect after 3 attempts: '' (Some e3)), c,
               log c (Warnf_attempt 3 3 e3) (snd (snd g3))) \<and>
            fst (snd g1) = c \<and> fst (snd g2) = c \<and> fst (snd g3) = c \<and>
            timers (snd (snd (TestConnection L ctx c w))) =
              timers w @ [2 * Second, 4 * Second] \<and>
            now w + 6000000000 \<le> now (snd (snd (TestConnection L ctx c w))) \<and>
            length (posts (snd (snd (TestConnection L ctx c w)))) \<le> length (posts w) + 3 \<and>
            (NewRequestWithContext L ctx (RpcUrl c) = None \<longrightarrow>
               posts (snd (snd (TestConnection L ctx c w))) = posts w @ [req, req, req]) \<and>
            (logger c \<longrightarrow>
               filter ?P (logs (snd (snd (TestConnection L ctx c w)))) =
               filter ?P (logs w) @
               [Warnf_attempt 1 3 e1, Warnf_attempt 2 3 e2, Warnf_attempt 3 3 e3])"
    using A by blast
  have C': "snd (fst g1) = Some e1 \<and> done_first w (length (timers w)) = None \<and>
          snd (fst g2) = None \<longrightarrow>
            TestConnection L ctx c w = (None, snd g2) \<and>
            timers (snd (snd (TestConnection L ctx c w))) = timers w @ [2 * Second]"
    using C by blast
  have D': "snd (fst g1) = Some e1 \<and> snd (fst g2) = Some e2 \<and> snd (fst g3) = None \<and>
          done_first w (length (timers w)) = None \<and>
          done_first w (Suc (length (timers w))) = None \<longrightarrow>
            TestConnection L ctx c w = (None, snd g3) \<and>
            timers (snd (snd (TestConnection L ctx c w))) =
              timers w @ [2 * Second, 4 * Second]"
    using D by blast
  note parts = A' B C' D'
  show ?thesis
    by (intro conjI) (rule parts)+
qed

theorem probe_backoff_witness:
  "fst (TestConnection example_lib example_ctx example_client example_down) =
     Some (Errorf ''failed to connect after 3 attempts: ''
             (Some (Errorf ''getVersion RPC call failed: ''
                      (Some (External ''connection refused''))))) \<and>
   timers (snd (snd (TestConnection example_lib example_ctx example_client example_down))) =
     [2 * Second, 4 * Second] \<and>
   now (snd (snd (TestConnection example_lib example_ctx example_client example_down))) =
     6000000015 \<and>
   posts (snd (snd (TestConnection example_lib example_ctx example_client example_down))) =
     [(''http://localhost:8899'',
       JSON \<lparr>Jsonrpc = ''2.0'', Id = 1, Method = ''getVersion'', Params = []\<rparr>),
      (''http://localhost:8899'',
       JSON \<lparr>Jsonrpc = ''2.0'', Id = 1, Method = ''getVersion'', Params = []\<rparr>),
      (''http://localhost:8899'',
       JSON \<lparr>Jsonrpc = ''2.0'', Id = 1, Method = ''getVersion'', Params = []\<rparr>)] \<and>
   filter (\<lambda>x. \<exists>i n e. x = Warnf_attempt i n e)
     (logs (snd (snd (TestConnection example_lib example_ctx example_client example_down)))) =
     [Warnf_attempt 1 3 (Errorf ''getVersion RPC call failed: ''
                           (Some (External ''connection refused''))),
      Warnf_attempt 2 3 (Errorf ''getVersion RPC call failed: ''
                           (Some (External ''connection refused''))),
      Warnf_attempt 3 3 (Errorf ''getVersion RPC call failed: ''
                           (Some (External ''connection refused'')))] \<and>
   fst (TestConnection example_lib example_ctx example_client (example_world ''1.18.0'')) =
     None \<and>
   timers (snd (snd (TestConnection example_lib example_ctx example_client
                       (example_world ''1.18.0'')))) = [] \<and>
   posts (snd (snd (TestConnection example_lib example_ctx example_client
                      (example_world ''1.18.0'')))) =
     [(''http://localhost:8899'',
       JSON \<lparr>Jsonrpc = ''2.0'', Id = 1, Method = ''getVersion'', Params = []\<rparr>)]"
proof -
  let ?L = example_lib and ?x = example_ctx and ?c = example_client and ?w = example_down
  let ?E = "Errorf ''getVersion RPC call failed: '' (Some (External ''connection refused''))"
  let ?g1 = "GetVersion ?L ?x ?c ?w"
  let ?v1 = "(log (fst (snd ?g1)) (Warnf_attempt 1 3 ?E) (snd (snd ?g1)))
               \<lparr>timers := timers ?w @ [2 * Second], now := now (snd (snd ?g1)) + 2000000000\<rparr>"
  let ?g2 = "GetVersion ?L ?x (fst (snd ?g1)) ?v1"
  let ?v2 = "(log (fst (snd ?g2)) (Warnf_attempt 2 3 ?E) (snd (snd ?g2)))
               \<lparr>timers := timers ?w @ [2 * Second, 4 * Second],
                now := now (snd (snd ?g2)) + 4000000000\<rparr>"
  let ?g3 = "GetVersion ?L ?x (fst (snd ?g2)) ?v2"
  have n: "NewRequestWithContext ?L ?x (RpcUrl ?c) = None"
    by (simp add: example_facts)
  have vc: "versionCache ?c = None"
    by (simp add: example_client_facts)
  have h0: "\<forall>n. http ?w n = DoError 5 (External ''connection refused'')"
    by (simp add: example_down_facts)
  have e1: "snd (fst ?g1) = Some ?E" and n1: "now (snd (snd ?g1)) = 5"
    using down_GetVersion [OF h0 vc n] by (simp_all add: example_down_facts)
  have c1: "fst (snd ?g1) = ?c"
    using GetVersion_failed(1) [OF e1] .
  have h1: "\<forall>n. http ?v1 n = DoError 5 (External ''connection refused'')"
    by (simp add: GetVersion_http example_down_facts)
  have e2: "snd (fst ?g2) = Some ?E" and n2: "now (snd (snd ?g2)) = 2000000010"
    using down_GetVersion [OF h1 vc n] by (simp_all add: c1 n1)
  have c2: "fst (snd ?g2) = ?c"
    using GetVersion_failed(1) [of ?L ?x ?c ?v1 ?E] e2 by (simp add: c1)
  have h2: "\<forall>n. http ?v2 n = DoError 5 (External ''connection refused'')"
    using h1 by (simp add: GetVersion_http)
  have e3: "snd (fst ?g3) = Some ?E" and n3: "now (snd (snd ?g3)) = 6000000015"
    using down_GetVersion [OF h2 vc n] by (simp_all add: c2 n2)
  have d: "done_first ?w (length (timers ?w)) = None"
    "done_first ?w (Suc (length (timers ?w))) = None" "timers ?w = []" "posts ?w = []"
    "logs ?w = []"
    by (simp_all add: example_down_facts)
  note T = probe_backoff [OF refl refl refl refl refl refl, where L = ?L and ctx = ?x
      and c = ?c and w = ?w and ?e1.0 = ?E and ?e2.0 = ?E and ?e3.0 = ?E]
  have hyp: "snd (fst ?g1) = Some ?E \<and> snd (fst ?g2) = Some ?E \<and> snd (fst ?g3) = Some ?E \<and>
      done_first ?w (length (timers ?w)) = None \<and>
      done_first ?w (Suc (length (timers ?w))) = None"
    using e1 e2 e3 d(1) d(2) by (intro conjI)
  note R = T [THEN conjunct1, THEN mp, OF hyp]
  let ?r = "(RpcUrl ?c, JSON \<lparr>Jsonrpc = ''2.0'', Id = 1, Method = ''getVersion'', Params = []\<rparr>)"
  let ?P = "\<lambda>x. \<exists>i n e. x = Warnf_attempt i n e"
  have Teq: "TestConnection ?L ?x ?c ?w =
      (Some (Errorf ''failed to connect after 3 attempts: '' (Some ?E)), ?c,
       log ?c (Warnf_attempt 3 3 ?E) (snd (snd ?g3)))"
    using R by (rule conjunct1)
  have tm: "timers (snd (snd (TestConnection ?L ?x ?c ?w))) =
      timers ?w @ [2 * Second, 4 * Second]"
    using R by (elim conjE)
  have px: "NewRequestWithContext ?L ?x (RpcUrl ?c) = None \<longrightarrow>
      posts (snd (snd (TestConnection ?L ?x ?c ?w))) = posts ?w @ [?r, ?r, ?r]"
    using R by (elim conjE)
  have lg: "logger ?c \<longrightarrow>
      filter ?P (logs (snd (snd (TestConnection ?L ?x ?c ?w)))) =
      filter ?P (logs ?w) @ [Warnf_attempt 1 3 ?E, Warnf_attempt 2 3 ?E, Warnf_attempt 3 3 ?E]"
    using R by (elim conjE)
  have nw: "now (snd (snd (TestConnection ?L ?x ?c ?w))) = 6000000015"
    unfolding Teq using n3 by simp
  have fail: "fst (TestConnection ?L ?x ?c ?w) =
      Some (Errorf ''failed to connect after 3 attempts: '' (Some ?E)) \<and>
    timers (snd (snd (TestConnection ?L ?x ?c ?w))) = [2 * Second, 4 * Second] \<and>
    now (snd (snd (TestConnection ?L ?x ?c ?w))) = 6000000015 \<and>
    posts (snd (snd (TestConnection ?L ?x ?c ?w))) = [?r, ?r, ?r] \<and>
    filter ?P (logs (snd (snd (TestConnection ?L ?x ?c ?w)))) =
      [Warnf_attempt 1 3 ?E, Warnf_attempt 2 3 ?E, Warnf_attempt 3 3 ?E]"
    using tm px lg nw n d(3) d(4) d(5) by (simp add: Teq example_client_facts)
  let ?o = "example_world ''1.18.0''"
  have ok: "snd (fst (GetVersion ?L ?x ?c ?o)) = None"
    by (simp add: GetVersion_def GetVersion_refresh_via Let_def example_client_facts
          example_ok_any)
  have po: "posts (snd (snd (GetVersion ?L ?x ?c ?o))) =
      [(''http://localhost:8899'',
        JSON \<lparr>Jsonrpc = ''2.0'', Id = 1, Method = ''getVersion'', Params = []\<rparr>)]"
    using n
    by (simp add: GetVersion_def GetVersion_refresh_world getResponse_sent
          example_client_facts example_world_def)
  have t0: "timers ?o = []"
    by (simp add: example_world_def)
  note S = probe_backoff [OF refl refl refl refl refl refl, where L = ?L and ctx = ?x
      and c = ?c and w = ?o, THEN conjunct2, THEN conjunct1, THEN mp, OF ok]
  have Seq: "TestConnection ?L ?x ?c ?o = (None, snd (GetVersion ?L ?x ?c ?o))"
    using S by (rule conjunct1)
  have st: "timers (snd (snd (TestConnection ?L ?x ?c ?o))) = timers ?o"
    using S by (elim conjE)
  have succ: "fst (TestConnection ?L ?x ?c ?o) = None \<and>
    timers (snd (snd (TestConnection ?L ?x ?c ?o))) = [] \<and>
    posts (snd (snd (TestConnection ?L ?x ?c ?o))) =
      [(''http://localhost:8899'',
        JSON \<lparr>Jsonrpc = ''2.0'', Id = 1, Method = ''getVersion'', Params = []\<rparr>)]"
    using st t0 po by (simp add: Seq)
  show ?thesis
    using fail succ by (simp add: example_client_facts)
qed

text \<open>
  Claim C5. With the attempts and waits named as for C3: if the first fetch fails and
  the context is done during the first wait, \<open>dt\<close> nanoseconds into it, TestConnection
  returns \<open>ctx.Err()\<close>, not the error of the fetch, in the state the first attempt
  left but for the timer started and the clock moved by \<open>dt\<close>; no request is posted
  after the first attempt's. The same holds for the second wait after two failed fetches.
\<close>

theorem cancelled_backoff:
  assumes "a1 = TestConnection_attempt L ctx 0 c w"
      and "s1 = select_backoff (2 * Second) (snd (snd a1))"
      and "a2 = TestConnection_attempt L ctx 1 (fst (snd a1)) (snd s1)"
  shows "(fst a1 \<noteq> None \<and> done_first w (length (timers w)) = Some dt \<longrightarrow>
            TestConnection L ctx c w =
              (Some (Err ctx), fst (snd a1),
               (snd (snd a1))\<lparr>timers := timers w @ [2 * Second],
                               now := now (snd (snd a1)) + int dt\<rparr>) \<and>
            posts (snd (snd (TestConnection L ctx c w))) = posts (snd (snd a1))) \<and>
         (fst a1 \<noteq> None \<and> done_first w (length (timers w)) = None \<and> fst a2 \<noteq> None \<and>
          done_first w (Suc (length (timers w))) = Some dt \<longrightarrow>
            TestConnection L ctx c w =
              (Some (Err ctx), fst (snd a2),
               (snd (snd a2))\<lparr>timers := timers w @ [2 * Second, 4 * Second],
                               now := now (snd (snd a2)) + int dt\<rparr>) \<and>
            posts (snd (snd (TestConnection L ctx c w))) = posts (snd (snd a2)))"
proof -
  note W = TestConnection_worlds [OF assms refl refl]
  note R = TestConnection_run [OF assms refl refl]
  have f1: "fst s1 = TimerFired" if "done_first w (length (timers w)) = None"
    using that select_backoff_TimerFired [of "snd (snd a1)" "2 * Second"]
    by (simp add: assms(2) W(1) W(6))
  have c1: "s1 = (CtxDone, (snd (snd a1))\<lparr>timers := timers w @ [2 * Second],
                               now := now (snd (snd a1)) + int dt\<rparr>)"
    if "done_first w (length (timers w)) = Some dt"
    using that select_backoff_CtxDone [of "snd (snd a1)" dt "2 * Second"]
    by (simp add: assms(2) W(1) W(6))
  have c2: "select_backoff (4 * Second) (snd (snd a2)) =
      (CtxDone, (snd (snd a2))\<lparr>timers := timers w @ [2 * Second, 4 * Second],
                               now := now (snd (snd a2)) + int dt\<rparr>)"
    if "done_first w (Suc (length (timers w))) = Some dt"
    using that select_backoff_CtxDone [of "snd (snd a2)" dt "4 * Second"]
    by (simp add: W(3) W(7))
  have A: "fst a1 \<noteq> None \<and> done_first w (length (timers w)) = Some dt \<longrightarrow>
            TestConnection L ctx c w =
              (Some (Err ctx), fst (snd a1),
               (snd (snd a1))\<lparr>timers := timers w @ [2 * Second],
                               now := now (snd (snd a1)) + int dt\<rparr>) \<and>
            posts (snd (snd (TestConnection L ctx c w))) = posts (snd (snd a1))"
    using c1 by (auto simp add: R)
  have B: "fst a1 \<noteq> None \<and> done_first w (length (timers w)) = None \<and> fst a2 \<noteq> None \<and>
          done_first w (Suc (length (timers w))) = Some dt \<longrightarrow>
            TestConnection L ctx c w =
              (Some (Err ctx), fst (snd a2),
               (snd (snd a2))\<lparr>timers := timers w @ [2 * Second, 4 * Second],
                               now := now (snd (snd a2)) + int dt\<rparr>) \<and>
            posts (snd (snd (TestConnection L ctx c w))) = posts (snd (snd a2))"
    using f1 c2 by (auto simp add: R)
  show ?thesis
    using A B by (rule conjI)
qed

theorem cancelled_backoff_witness:
  "fst (TestConnection example_lib example_ctx example_client (example_cancel 0)) =
     Some (External ''context canceled'') \<and>
   timers (snd (snd (TestConnection example_lib example_ctx example_client
                       (example_cancel 0)))) = [2 * Second] \<and>
   fst (TestConnection example_lib example_ctx example_client (example_cancel (Suc 0))) =
     Some (External ''context canceled'') \<and>
   timers (snd (snd (TestConnection example_lib example_ctx example_client
                       (example_cancel (Suc 0))))) = [2 * Second, 4 * Second]"
proof -
  let ?L = example_lib and ?x = example_ctx and ?c = example_client
  let ?E = "Errorf ''getVersion RPC call failed: '' (Some (External ''connection refused''))"
  have n: "\<And>c. NewRequestWithContext ?L ?x (RpcUrl c) = None"
    by (simp add: example_facts)
  have vc: "versionCache ?c = None"
    by (simp add: example_client_facts)
  have x: "Err ?x = External ''context canceled''"
    by (simp add: example_ctx_def)
  have first: "fst (TestConnection ?L ?x ?c (example_cancel 0)) = Some (Err ?x) \<and>
      timers (snd (snd (TestConnection ?L ?x ?c (example_cancel 0)))) = [2 * Second]"
  proof -
    let ?w = "example_cancel 0"
    let ?a1 = "TestConnection_attempt ?L ?x 0 ?c ?w"
    have h0: "\<forall>n. http ?w n = DoError 5 (External ''connection refused'')"
      by (simp add: example_cancel_facts)
    have e1: "fst ?a1 = Some ?E"
      using down_attempt [OF h0 vc n] by simp
    have d: "done_first ?w (length (timers ?w)) = Some 1000" "timers ?w = []"
      by (simp_all add: example_cancel_facts)
    show ?thesis
      using cancelled_backoff [OF refl refl refl, of ?L ?x ?c ?w 1000] e1 d
      by simp
  qed
  have second: "fst (TestConnection ?L ?x ?c (example_cancel (Suc 0))) = Some (Err ?x) \<and>
      timers (snd (snd (TestConnection ?L ?x ?c (example_cancel (Suc 0))))) =
        [2 * Second, 4 * Second]"
  proof -
    let ?w = "example_cancel (Suc 0)"
    let ?a1 = "TestConnection_attempt ?L ?x 0 ?c ?w"
    let ?s1 = "select_backoff (2 * Second) (snd (snd ?a1))"
    let ?a2 = "TestConnection_attempt ?L ?x 1 (fst (snd ?a1)) (snd ?s1)"
    have h0: "\<forall>n. http ?w n = DoError 5 (External ''connection refused'')"
      by (simp add: example_cancel_facts)
    have e1: "fst ?a1 = Some ?E" and c1: "fst (snd ?a1) = ?c"
      using down_attempt [OF h0 vc n] by simp_all
    have h1: "\<forall>n. http (snd ?s1) n = DoError 5 (External ''connection refused'')"
      by (simp add: select_backoff_frame attempt_http example_cancel_facts)
    have e2: "fst ?a2 = Some ?E"
      using down_attempt [OF h1 vc n] by (simp add: c1)
    have d: "done_first ?w (length (timers ?w)) = None"
      "done_first ?w (Suc (length (timers ?w))) = Some 1000" "timers ?w = []"
      by (simp_all add: example_cancel_facts)
    show ?thesis
      using cancelled_backoff [OF refl refl refl, of ?L ?x ?c ?w 1000] e1 e2 d
      by simp
  qed
  show ?thesis
    using first second x by simp
qed

end
